theory Spec2Isabelle
  imports Complex_Main "HOL-Library.Word"
begin

section \<open>Numeric model\<close>

text \<open>
  The sources are TypeScript. In the model of the particle systems, of the sampler and
  of the zoom policy a \<^verbatim>\<open>number\<close> is a \<^typ>\<open>real\<close> and arithmetic is exact: rounding of
  IEEE doubles, \<^verbatim>\<open>NaN\<close> and the infinities are not represented there. The properties that
  depend on rounding, the monotonic decoding of a channel and the round trip of the
  projection, are stated on a second model of the same expressions in which every
  operation rounds to the nearest double (section ``IEEE double arithmetic''). The only
  operations of the modelled code that can leave the finite numbers
  are the divisions by \<^verbatim>\<open>east - west\<close>, \<^verbatim>\<open>north - south\<close>, \<^verbatim>\<open>width\<close> and \<^verbatim>\<open>height\<close>. A theorem
  below whose conclusion depends on such a quotient assumes the divisor non-zero or is
  evaluated at an input where it is; the others conclude nothing about the quotient (the
  division by \<^verbatim>\<open>width\<close> and \<^verbatim>\<open>height\<close> is reached only behind the guard \<^verbatim>\<open>px < width\<close>,
  \<^verbatim>\<open>py < height\<close>, where both are positive). Grid dimensions are integers (\<^typ>\<open>int\<close>), a
  pixel buffer is a list of bytes (\<^typ>\<open>8 word\<close>), and a read past the end of a buffer is
  \<^verbatim>\<open>undefined\<close> in JavaScript, modelled as \<^term>\<open>None\<close>.
\<close>

record geo_bounds =
  west :: real
  east :: real
  south :: real
  north :: real

text \<open>
  \<^verbatim>\<open>WindData\<close> of \<^verbatim>\<open>hooks/useWindData.ts\<close> and of \<^verbatim>\<open>SkiaWindParticles.tsx\<close>. The field
  \<open>data\<close> is \<^verbatim>\<open>imageData.data\<close> in the hook and in the deck.gl layer, and \<^verbatim>\<open>data\<close> in the
  Skia component; \<^verbatim>\<open>metadata\<close> is read by none of the modelled functions.
\<close>

record WindData =
  width :: int
  height :: int
  data :: "8 word list"
  bounds :: geo_bounds

text \<open>\<^verbatim>\<open>data[idx]\<close> for an integer index: \<^verbatim>\<open>undefined\<close> outside the buffer.\<close>

definition byteAt :: "8 word list \<Rightarrow> int \<Rightarrow> 8 word option" where
  "byteAt d idx = (if 0 \<le> idx \<and> idx < int (length d) then Some (d ! nat idx) else None)"

text \<open>The byte as the number JavaScript reads from a \<^verbatim>\<open>Uint8Array\<close>.\<close>

definition byteVal :: "8 word \<Rightarrow> real" where
  "byteVal b = real (unat b)"

text \<open>
  What \<^verbatim>\<open>ctx.getImageData(0, 0, img.width, img.height)\<close> guarantees for the field that
  \<^verbatim>\<open>useWindData\<close> builds: four bytes for each of the \<open>width * height\<close> pixels.
\<close>

definition wellFormed :: "WindData \<Rightarrow> bool" where
  "wellFormed wd \<longleftrightarrow>
     0 < width wd \<and> 0 < height wd \<and> int (length (data wd)) = 4 * width wd * height wd"

section \<open>Channel decoding and pixel lookup (\<^verbatim>\<open>hooks/useWindData.ts\<close>)\<close>

text \<open>\<^verbatim>\<open>decodeWindComponent(encoded, min = -50, max = 50)\<close>, lines 67-70.\<close>

definition decodeWindComponent :: "real \<Rightarrow> real \<Rightarrow> real \<Rightarrow> real" where
  "decodeWindComponent encoded mn mx = (let normalized = encoded / 255 in normalized * (mx - mn) + mn)"

text \<open>The call \<^verbatim>\<open>decodeWindComponent(r)\<close> with both defaults.\<close>

definition decodeWindComponent1 :: "real \<Rightarrow> real" where
  "decodeWindComponent1 encoded = decodeWindComponent encoded (- 50) 50"

text \<open>
  The object \<^verbatim>\<open>{ u, v, magnitude }\<close>. A component computed from an \<^verbatim>\<open>undefined\<close> byte is
  \<^verbatim>\<open>NaN\<close>, modelled as \<^term>\<open>None\<close>.
\<close>

record wind_sample =
  s_u :: "real option"
  s_v :: "real option"
  s_magnitude :: "real option"

text \<open>\<^verbatim>\<open>getWindAtPixel(x, y)\<close>, lines 156-178; \<^verbatim>\<open>null\<close> is \<^term>\<open>None\<close>.\<close>

definition getWindAtPixel :: "WindData option \<Rightarrow> real \<Rightarrow> real \<Rightarrow> wind_sample option" where
  "getWindAtPixel windData x y =
     (case windData of
        None \<Rightarrow> None
      | Some wd \<Rightarrow>
          (let px = \<lfloor>x\<rfloor>; py = \<lfloor>y\<rfloor> in
           if px < 0 \<or> px \<ge> width wd \<or> py < 0 \<or> py \<ge> height wd then None
           else
             (let idx = (py * width wd + px) * 4;
                  r = byteAt (data wd) idx;
                  g = byteAt (data wd) (idx + 1);
                  b = byteAt (data wd) (idx + 2);
                  a = byteAt (data wd) (idx + 3)
              in if a = Some 0 then None
                 else Some \<lparr> s_u = map_option (\<lambda>c. decodeWindComponent1 (byteVal c)) r,
                             s_v = map_option (\<lambda>c. decodeWindComponent1 (byteVal c)) g,
                             s_magnitude = map_option (\<lambda>c. (byteVal c / 255) * 70.7) b \<rparr>)))"

section \<open>Zoom policy\<close>

subsection \<open>\<^verbatim>\<open>rn-components/SkiaWindParticles.tsx\<close>, lines 87-114\<close>

definition getParticleCount :: "real \<Rightarrow> real \<Rightarrow> real" where
  "getParticleCount zoom baseCount =
     (if zoom < 4 then baseCount
      else if zoom < 6 then of_int \<lfloor>baseCount * 0.5\<rfloor>
      else if zoom < 8 then of_int \<lfloor>baseCount * 0.2\<rfloor>
      else if zoom < 10 then of_int \<lfloor>baseCount * 0.08\<rfloor>
      else if zoom < 12 then of_int \<lfloor>baseCount * 0.04\<rfloor>
      else of_int \<lfloor>baseCount * 0.025\<rfloor>)"

definition getSpeedFactor :: "real \<Rightarrow> real" where
  "getSpeedFactor zoom =
     (if zoom < 4 then 0.08
      else if zoom < 6 then 0.06
      else if zoom < 8 then 0.03
      else if zoom < 10 then 0.015
      else if zoom < 12 then 0.006
      else 0.002)"

definition getTrailLength :: "real \<Rightarrow> real \<Rightarrow> real" where
  "getTrailLength zoom baseLength =
     (if zoom < 4 then baseLength
      else if zoom < 6 then of_int \<lfloor>baseLength * 0.8\<rfloor>
      else if zoom < 8 then of_int \<lfloor>baseLength * 0.6\<rfloor>
      else if zoom < 10 then of_int \<lfloor>baseLength * 0.4\<rfloor>
      else if zoom < 12 then of_int \<lfloor>baseLength * 0.25\<rfloor>
      else max 3 (of_int \<lfloor>baseLength * 0.15\<rfloor>))"

subsection \<open>The deck.gl layer with view bounds (\<^verbatim>\<open>unnamed/part_007\<close>, lines 377-405)\<close>

text \<open>
  There the three functions are closures over the props \<^verbatim>\<open>baseParticleCount\<close>,
  \<^verbatim>\<open>speedFactor\<close> and \<^verbatim>\<open>trailLength\<close>, which are the second argument here.
\<close>

definition deck_getParticleCount :: "real \<Rightarrow> real \<Rightarrow> real" where
  "deck_getParticleCount currentZoom baseParticleCount =
     (if currentZoom < 4 then baseParticleCount
      else if currentZoom < 6 then of_int \<lfloor>baseParticleCount * 0.5\<rfloor>
      else if currentZoom < 8 then of_int \<lfloor>baseParticleCount * 0.2\<rfloor>
      else if currentZoom < 10 then of_int \<lfloor>baseParticleCount * 0.08\<rfloor>
      else if currentZoom < 12 then of_int \<lfloor>baseParticleCount * 0.04\<rfloor>
      else of_int \<lfloor>baseParticleCount * 0.025\<rfloor>)"

definition deck_getSpeedFactor :: "real \<Rightarrow> real \<Rightarrow> real" where
  "deck_getSpeedFactor currentZoom speedFactor =
     (if currentZoom < 4 then speedFactor
      else if currentZoom < 6 then speedFactor * 0.7
      else if currentZoom < 8 then speedFactor * 0.4
      else if currentZoom < 10 then speedFactor * 0.15
      else if currentZoom < 12 then speedFactor * 0.06
      else speedFactor * 0.02)"

definition deck_getTrailLength :: "real \<Rightarrow> real \<Rightarrow> real" where
  "deck_getTrailLength currentZoom trailLength =
     (if currentZoom < 4 then trailLength
      else if currentZoom < 6 then of_int \<lfloor>trailLength * 0.8\<rfloor>
      else if currentZoom < 8 then of_int \<lfloor>trailLength * 0.6\<rfloor>
      else if currentZoom < 10 then of_int \<lfloor>trailLength * 0.4\<rfloor>
      else if currentZoom < 12 then of_int \<lfloor>trailLength * 0.25\<rfloor>
      else max 3 (of_int \<lfloor>trailLength * 0.15\<rfloor>))"

section \<open>The particle system of \<^verbatim>\<open>rn-components/SkiaWindParticles.tsx\<close>\<close>

text \<open>
  \<^verbatim>\<open>interface Particle\<close>, lines 39-48. A trail point \<^verbatim>\<open>{ lng, lat }\<close> is the pair
  \<open>(lng, lat)\<close>; the head of the list is the most recent point.
\<close>

record Particle =
  p_id :: nat
  p_x :: real
  p_y :: real
  p_lng :: real
  p_lat :: real
  p_age :: real
  p_maxAge :: real
  p_trail :: "(real \<times> real) list"

text \<open>
  The props and derived values that \<^verbatim>\<open>initParticles\<close> and \<^verbatim>\<open>updateParticles\<close> close
  over. \<open>pr_zoom\<close> is \<^verbatim>\<open>mapCamera?.zoom ?? 3\<close>; of \<^verbatim>\<open>mapBounds\<close> only being \<^verbatim>\<open>null\<close> or not
  is read.
\<close>

record SkiaProps =
  pr_windData :: "WindData option"
  pr_mapBounds :: "((real \<times> real) \<times> (real \<times> real)) option"
  pr_zoom :: real
  pr_baseParticleCount :: real
  pr_trailLength :: real
  pr_maxAge :: real

text \<open>
  \<^verbatim>\<open>Math.random()\<close> is the only source of non-determinism. It is modelled as a fixed
  infinite sequence of draws, of which the state counts how many have been consumed;
  the theorems that need it assume every draw in \<open>[0, 1)\<close>.
\<close>

type_synonym random_source = "nat \<Rightarrow> real"

definition unitDraws :: "random_source \<Rightarrow> bool" where
  "unitDraws rnd \<longleftrightarrow> (\<forall>n. 0 \<le> rnd n \<and> rnd n < 1)"

text \<open>\<^verbatim>\<open>particlesRef.current\<close> together with the number of draws made so far.\<close>

record SimState =
  particles :: "Particle list"
  draws :: nat

text \<open>
  The affine mappings between geographic and pixel space, written inline in the source
  (lines 168-169 and 236-237 to pixels, lines 215-216 back).
\<close>

definition lngToX :: "geo_bounds \<Rightarrow> int \<Rightarrow> real \<Rightarrow> real" where
  "lngToX b w lng = ((lng - west b) / (east b - west b)) * of_int w"

definition latToY :: "geo_bounds \<Rightarrow> int \<Rightarrow> real \<Rightarrow> real" where
  "latToY b h lat = ((north b - lat) / (north b - south b)) * of_int h"

definition xToLng :: "geo_bounds \<Rightarrow> int \<Rightarrow> real \<Rightarrow> real" where
  "xToLng b w x = west b + (x / of_int w) * (east b - west b)"

definition yToLat :: "geo_bounds \<Rightarrow> int \<Rightarrow> real \<Rightarrow> real" where
  "yToLat b h y = north b - (y / of_int h) * (north b - south b)"

text \<open>
  \<^verbatim>\<open>Array.prototype.slice(0, end)\<close>: the end is truncated towards zero, a negative end
  counts from the back, and the result is clamped to the array.
\<close>

definition toIntegerOrInfinity :: "real \<Rightarrow> int" where
  "toIntegerOrInfinity v = (if v < 0 then \<lceil>v\<rceil> else \<lfloor>v\<rfloor>)"

definition slice0 :: "'a list \<Rightarrow> real \<Rightarrow> 'a list" where
  "slice0 xs end =
     (let len = int (length xs);
          relativeEnd = toIntegerOrInfinity end;
          final = (if relativeEnd < 0 then max (len + relativeEnd) 0 else min relativeEnd len)
      in take (nat final) xs)"

text \<open>
  Lines 196-224 of the \<^verbatim>\<open>forEach\<close> callback: the lookup and, on a valid pixel, the
  advection and the trail update. \<^verbatim>\<open>a > 0\<close> is false for an \<^verbatim>\<open>undefined\<close> byte. The branch
  with \<open>a\<close> defined and \<open>r\<close> or \<open>g\<close> undefined cannot be taken (lemma
  \<open>byteAt_before\<close> below: \<open>idx\<close> is not negative there); it leaves the particle alone.
\<close>

definition advect :: "WindData \<Rightarrow> real \<Rightarrow> real \<Rightarrow> Particle \<Rightarrow> Particle" where
  "advect wd speedFactor currentTrailLength particle =
     (let px = \<lfloor>p_x particle\<rfloor>; py = \<lfloor>p_y particle\<rfloor> in
      if px \<ge> 0 \<and> px < width wd \<and> py \<ge> 0 \<and> py < height wd then
        (let idx = (py * width wd + px) * 4;
             r = byteAt (data wd) idx;
             g = byteAt (data wd) (idx + 1);
             a = byteAt (data wd) (idx + 3)
         in case (r, g, a) of
              (Some rv, Some gv, Some av) \<Rightarrow>
                if byteVal av > 0 then
                  (let u = (byteVal rv / 255) * 100 - 50;
                       v = (byteVal gv / 255) * 100 - 50;
                       x' = p_x particle + u * speedFactor;
                       y' = p_y particle - v * speedFactor;
                       lng' = xToLng (bounds wd) (width wd) x';
                       lat' = yToLat (bounds wd) (height wd) y';
                       trail' = (lng', lat') # p_trail particle
                   in particle\<lparr> p_x := x', p_y := y', p_lng := lng', p_lat := lat',
                        p_trail := (if real (length trail') > currentTrailLength
                                    then slice0 trail' currentTrailLength else trail') \<rparr>)
                else particle
            | _ \<Rightarrow> particle)
      else particle)"

text \<open>The condition of lines 229-233.\<close>

definition needsReset :: "WindData \<Rightarrow> Particle \<Rightarrow> bool" where
  "needsReset wd particle \<longleftrightarrow>
     p_age particle > p_maxAge particle
     \<or> p_x particle < 0 \<or> p_x particle \<ge> of_int (width wd)
     \<or> p_y particle < 0 \<or> p_y particle \<ge> of_int (height wd)"

text \<open>Lines 234-242; the three draws are taken in the order of the source.\<close>

definition respawn :: "WindData \<Rightarrow> real \<Rightarrow> random_source \<Rightarrow> nat \<Rightarrow> Particle \<Rightarrow> Particle" where
  "respawn wd maxAge rnd k particle =
     (let b = bounds wd;
          lng = west b + rnd k * (east b - west b);
          lat = south b + rnd (k + 1) * (north b - south b)
      in particle\<lparr> p_x := lngToX b (width wd) lng,
                    p_y := latToY b (height wd) lat,
                    p_lng := lng, p_lat := lat, p_age := 0,
                    p_maxAge := maxAge + of_int \<lfloor>rnd (k + 2) * 30\<rfloor> - 15,
                    p_trail := [(lng, lat)] \<rparr>)"

text \<open>The whole callback, lines 195-244, returning the particle and the draw counter.\<close>

definition updateParticle ::
  "WindData \<Rightarrow> real \<Rightarrow> real \<Rightarrow> real \<Rightarrow> random_source \<Rightarrow> Particle \<Rightarrow> nat \<Rightarrow> Particle \<times> nat" where
  "updateParticle wd speedFactor currentTrailLength maxAge rnd particle k =
     (let p1 = advect wd speedFactor currentTrailLength particle;
          p2 = p1\<lparr> p_age := p_age p1 + 1 \<rparr>
      in if needsReset wd p2 then (respawn wd maxAge rnd k p2, k + 3) else (p2, k))"

text \<open>\<^verbatim>\<open>particles.forEach\<close>: one pass in array order, threading the draw counter.\<close>

fun forEachParticle ::
  "('p \<Rightarrow> nat \<Rightarrow> 'p \<times> nat) \<Rightarrow> 'p list \<Rightarrow> nat \<Rightarrow> 'p list \<times> nat" where
  "forEachParticle f [] k = ([], k)"
| "forEachParticle f (p # ps) k =
     (case f p k of (p', k') \<Rightarrow>
        (case forEachParticle f ps k' of (ps', k'') \<Rightarrow> (p' # ps', k'')))"

text \<open>\<^verbatim>\<open>updateParticles\<close>, lines 187-245: one simulation tick.\<close>

definition updateParticles :: "SkiaProps \<Rightarrow> random_source \<Rightarrow> SimState \<Rightarrow> SimState" where
  "updateParticles props rnd st =
     (case (pr_windData props, pr_mapBounds props) of
        (Some wd, Some mb) \<Rightarrow>
          (let speedFactor = getSpeedFactor (pr_zoom props);
               currentTrailLength = getTrailLength (pr_zoom props) (pr_trailLength props)
           in case forEachParticle
                     (updateParticle wd speedFactor currentTrailLength (pr_maxAge props) rnd)
                     (particles st) (draws st) of
                (ps, k) \<Rightarrow> \<lparr> particles = ps, draws = k \<rparr>)
      | _ \<Rightarrow> st)"

text \<open>
  The loop of \<^verbatim>\<open>initParticles\<close>, lines 165-181, from index \<open>i\<close> on: four draws for each
  particle, in the order longitude, latitude, age, maximum age.
\<close>

function initLoop ::
  "WindData \<Rightarrow> real \<Rightarrow> random_source \<Rightarrow> real \<Rightarrow> nat \<Rightarrow> nat \<Rightarrow> Particle list \<times> nat" where
  "initLoop wd maxAge rnd particleCount i k =
     (if real i < particleCount then
        (let b = bounds wd;
             lng = west b + rnd k * (east b - west b);
             lat = south b + rnd (k + 1) * (north b - south b);
             x = lngToX b (width wd) lng;
             y = latToY b (height wd) lat;
             particle = \<lparr> p_id = i, p_x = x, p_y = y, p_lng = lng, p_lat = lat,
                          p_age = of_int \<lfloor>rnd (k + 2) * maxAge\<rfloor>,
                          p_maxAge = maxAge + of_int \<lfloor>rnd (k + 3) * 30\<rfloor> - 15,
                          p_trail = [(lng, lat)] \<rparr>
         in case initLoop wd maxAge rnd particleCount (i + 1) (k + 4) of
              (ps, k') \<Rightarrow> (particle # ps, k'))
      else ([], k))"
  by pat_completeness auto
termination
proof (relation "measure (\<lambda>(wd, maxAge, rnd, particleCount, i, k). nat \<lceil>particleCount\<rceil> - i)")
  show "wf (measure (\<lambda>(wd, maxAge, rnd, particleCount, i, k). nat \<lceil>particleCount :: real\<rceil> - i))"
    by simp
next
  fix wd :: WindData and maxAge :: real and rnd :: random_source
    and particleCount :: real and i k :: nat
  assume lt: "real i < particleCount"
  have "particleCount \<le> of_int \<lceil>particleCount\<rceil>" by (rule le_of_int_ceiling)
  with lt have "real i < of_int \<lceil>particleCount\<rceil>" by (rule less_le_trans)
  then have "real_of_int (int i) < of_int \<lceil>particleCount\<rceil>" by simp
  then have "int i < \<lceil>particleCount\<rceil>" by (simp only: of_int_less_iff)
  then have "i < nat \<lceil>particleCount\<rceil>" by simp
  then show "((wd, maxAge, rnd, particleCount, i + 1, k + 4), (wd, maxAge, rnd, particleCount, i, k))
         \<in> measure (\<lambda>(wd, maxAge, rnd, particleCount, i, k). nat \<lceil>particleCount\<rceil> - i)"
    by simp
qed

declare initLoop.simps [simp del]

text \<open>\<^verbatim>\<open>initParticles\<close>, lines 158-184.\<close>

definition initParticles :: "SkiaProps \<Rightarrow> random_source \<Rightarrow> SimState \<Rightarrow> SimState" where
  "initParticles props rnd st =
     (case (pr_windData props, pr_mapBounds props) of
        (Some wd, Some mb) \<Rightarrow>
          (let particleCount = getParticleCount (pr_zoom props) (pr_baseParticleCount props)
           in case initLoop wd (pr_maxAge props) rnd particleCount 0 (draws st) of
                (ps, k) \<Rightarrow> \<lparr> particles = ps, draws = k \<rparr>)
      | _ \<Rightarrow> st)"

text \<open>A sequence of ticks, each with the props current at that tick.\<close>

fun runTicks :: "SkiaProps list \<Rightarrow> random_source \<Rightarrow> SimState \<Rightarrow> SimState" where
  "runTicks [] rnd st = st"
| "runTicks (props # rest) rnd st = runTicks rest rnd (updateParticles props rnd st)"

section \<open>The deck.gl particle layer with view bounds (\<^verbatim>\<open>unnamed/part_007\<close>, lines 303-715)\<close>

text \<open>
  \<^verbatim>\<open>interface Particle\<close>, lines 311-318: no \<^verbatim>\<open>lng\<close>/\<^verbatim>\<open>lat\<close> fields, and a trail point
  \<^verbatim>\<open>{ lng, lat, age }\<close> is the triple \<open>(lng, lat, age)\<close>. \<^verbatim>\<open>interface ViewBounds\<close> has the
  fields of \<^typ>\<open>geo_bounds\<close>.
\<close>

record DeckParticle =
  d_id :: nat
  d_x :: real
  d_y :: real
  d_age :: real
  d_maxAge :: real
  d_trail :: "(real \<times> real \<times> real) list"

text \<open>The props and the React state (\<^verbatim>\<open>viewBounds\<close>, \<^verbatim>\<open>zoom\<close>) the callbacks close over.\<close>

record DeckProps =
  dk_windData :: "WindData option"
  dk_baseParticleCount :: real
  dk_speedFactor :: real
  dk_trailLength :: real
  dk_maxAge :: real
  dk_viewBounds :: "geo_bounds option"
  dk_zoom :: real

record DeckState =
  d_particles :: "DeckParticle list"
  d_draws :: nat

text \<open>Lines 465-498: lookup, advection, trail update with ageing of the trail points.\<close>

definition deck_advect :: "WindData \<Rightarrow> real \<Rightarrow> real \<Rightarrow> DeckParticle \<Rightarrow> DeckParticle" where
  "deck_advect wd currentSpeedFactor currentTrailLength particle =
     (let px = \<lfloor>d_x particle\<rfloor>; py = \<lfloor>d_y particle\<rfloor> in
      if px \<ge> 0 \<and> px < width wd \<and> py \<ge> 0 \<and> py < height wd then
        (let idx = (py * width wd + px) * 4;
             r = byteAt (data wd) idx;
             g = byteAt (data wd) (idx + 1);
             a = byteAt (data wd) (idx + 3)
         in case (r, g, a) of
              (Some rv, Some gv, Some av) \<Rightarrow>
                if byteVal av > 0 then
                  (let u = (byteVal rv / 255) * 100 - 50;
                       v = (byteVal gv / 255) * 100 - 50;
                       x' = d_x particle + u * currentSpeedFactor;
                       y' = d_y particle - v * currentSpeedFactor;
                       lng = xToLng (bounds wd) (width wd) x';
                       lat = yToLat (bounds wd) (height wd) y';
                       trail' = map (\<lambda>(plng, plat, page). (plng, plat, page + 1))
                                    ((lng, lat, 0) # d_trail particle)
                   in particle\<lparr> d_x := x', d_y := y',
                        d_trail := (if real (length trail') > currentTrailLength
                                    then slice0 trail' currentTrailLength else trail') \<rparr>)
                else particle
            | _ \<Rightarrow> particle)
      else particle)"

text \<open>The condition of lines 504-508.\<close>

definition deck_needsReset :: "WindData \<Rightarrow> DeckParticle \<Rightarrow> bool" where
  "deck_needsReset wd particle \<longleftrightarrow>
     d_age particle > d_maxAge particle
     \<or> d_x particle < 0 \<or> d_x particle \<ge> of_int (width wd)
     \<or> d_y particle < 0 \<or> d_y particle \<ge> of_int (height wd)"

text \<open>Lines 510-518: the data bounds, or their intersection with the view when zoomed in.\<close>

definition deck_spawnBounds :: "geo_bounds \<Rightarrow> geo_bounds option \<Rightarrow> real \<Rightarrow> geo_bounds" where
  "deck_spawnBounds b viewBounds zoom =
     (case viewBounds of
        Some vb \<Rightarrow>
          if zoom > 4 then
            \<lparr> west = max (west b) (west vb), east = min (east b) (east vb),
              south = max (south b) (south vb), north = min (north b) (north vb) \<rparr>
          else b
      | None \<Rightarrow> b)"

text \<open>Lines 520-526.\<close>

definition deck_respawn ::
  "WindData \<Rightarrow> real \<Rightarrow> geo_bounds option \<Rightarrow> real \<Rightarrow> random_source \<Rightarrow> nat \<Rightarrow> DeckParticle \<Rightarrow> DeckParticle" where
  "deck_respawn wd maxAge viewBounds zoom rnd k particle =
     (let b = bounds wd;
          spawnBounds = deck_spawnBounds b viewBounds zoom;
          lng = west spawnBounds + rnd k * (east spawnBounds - west spawnBounds);
          lat = south spawnBounds + rnd (k + 1) * (north spawnBounds - south spawnBounds)
      in particle\<lparr> d_x := lngToX b (width wd) lng,
                    d_y := latToY b (height wd) lat,
                    d_age := 0,
                    d_maxAge := maxAge + of_int \<lfloor>rnd (k + 2) * 30\<rfloor> - 15,
                    d_trail := [(lng, lat, 0)] \<rparr>)"

text \<open>The callback of lines 463-528.\<close>

definition deck_updateParticle ::
  "WindData \<Rightarrow> real \<Rightarrow> real \<Rightarrow> real \<Rightarrow> geo_bounds option \<Rightarrow> real \<Rightarrow> random_source
     \<Rightarrow> DeckParticle \<Rightarrow> nat \<Rightarrow> DeckParticle \<times> nat" where
  "deck_updateParticle wd currentSpeedFactor currentTrailLength maxAge viewBounds zoom rnd particle k =
     (let p1 = deck_advect wd currentSpeedFactor currentTrailLength particle;
          p2 = p1\<lparr> d_age := d_age p1 + 1 \<rparr>
      in if deck_needsReset wd p2
         then (deck_respawn wd maxAge viewBounds zoom rnd k p2, k + 3) else (p2, k))"

text \<open>\<^verbatim>\<open>updateParticles\<close>, lines 453-529.\<close>

definition deck_updateParticles :: "DeckProps \<Rightarrow> random_source \<Rightarrow> DeckState \<Rightarrow> DeckState" where
  "deck_updateParticles props rnd st =
     (case dk_windData props of
        None \<Rightarrow> st
      | Some wd \<Rightarrow>
          (let currentSpeedFactor = deck_getSpeedFactor (dk_zoom props) (dk_speedFactor props);
               currentTrailLength = deck_getTrailLength (dk_zoom props) (dk_trailLength props)
           in case forEachParticle
                     (deck_updateParticle wd currentSpeedFactor currentTrailLength
                        (dk_maxAge props) (dk_viewBounds props) (dk_zoom props) rnd)
                     (d_particles st) (d_draws st) of
                (ps, k) \<Rightarrow> \<lparr> d_particles = ps, d_draws = k \<rparr>))"

section \<open>The step table of section 4.2 of the specification\<close>

text \<open>
  These definitions follow the words of the specification, not the code: the table of
  count, speed and trail multipliers on the half-open zoom intervals, and the derived
  parameters as the specification computes them from integer base values.
\<close>

definition spec_countMultiplier :: "real \<Rightarrow> real" where
  "spec_countMultiplier z =
     (if z < 4 then 1.00 else if z < 6 then 0.50 else if z < 8 then 0.20
      else if z < 10 then 0.08 else if z < 12 then 0.04 else 0.025)"

definition spec_speedMultiplierRange :: "real \<Rightarrow> real \<times> real" where
  "spec_speedMultiplierRange z =
     (if z < 4 then (1.00, 1.00) else if z < 6 then (0.75, 0.75) else if z < 8 then (0.375, 0.50)
      else if z < 10 then (0.15, 0.19) else if z < 12 then (0.06, 0.08) else (0.02, 0.025))"

definition spec_trailMultiplier :: "real \<Rightarrow> real" where
  "spec_trailMultiplier z =
     (if z < 4 then 1.00 else if z < 6 then 0.80 else if z < 8 then 0.60
      else if z < 10 then 0.40 else if z < 12 then 0.25 else 0.15)"

definition spec_particleCount :: "real \<Rightarrow> int \<Rightarrow> int" where
  "spec_particleCount z baseCount = \<lfloor>of_int baseCount * spec_countMultiplier z\<rfloor>"

definition spec_trailLength :: "real \<Rightarrow> int \<Rightarrow> int" where
  "spec_trailLength z baseTrailLength =
     (if z < 12 then \<lfloor>of_int baseTrailLength * spec_trailMultiplier z\<rfloor>
      else max 3 \<lfloor>of_int baseTrailLength * spec_trailMultiplier z\<rfloor>)"

definition inRange :: "real \<times> real \<Rightarrow> real \<Rightarrow> bool" where
  "inRange r m \<longleftrightarrow> fst r \<le> m \<and> m \<le> snd r"

section \<open>Predicates used to state the properties of a tick\<close>

text \<open>
  The two guards of lines 199 and 205 of \<^verbatim>\<open>updateParticles\<close> taken together: the floored
  position addresses a pixel of the grid and the alpha byte there is greater than 0.
\<close>

definition validSample :: "WindData \<Rightarrow> real \<Rightarrow> real \<Rightarrow> bool" where
  "validSample wd x y \<longleftrightarrow>
     (let px = \<lfloor>x\<rfloor>; py = \<lfloor>y\<rfloor> in
      px \<ge> 0 \<and> px < width wd \<and> py \<ge> 0 \<and> py < height wd
      \<and> (case byteAt (data wd) ((py * width wd + px) * 4 + 3) of
            Some av \<Rightarrow> byteVal av > 0
          | None \<Rightarrow> False))"

text \<open>Every complete pixel of the buffer has alpha byte 0.\<close>

fun allAlphaZero :: "8 word list \<Rightarrow> bool" where
  "allAlphaZero (r # g # b # a # rest) = (a = 0 \<and> allAlphaZero rest)"
| "allAlphaZero _ = True"

text \<open>The position lies in \<open>[0, width) \<times> [0, height)\<close>.\<close>

definition inGrid :: "WindData \<Rightarrow> real \<Rightarrow> real \<Rightarrow> bool" where
  "inGrid wd x y \<longleftrightarrow> 0 \<le> x \<and> x < of_int (width wd) \<and> 0 \<le> y \<and> y < of_int (height wd)"



text \<open>
  The particle that a respawn with the draws \<open>rnd k\<close>, \<open>rnd (k + 1)\<close>, \<open>rnd (k + 2)\<close> is
  stated to produce: the drawn fractions of the way across the bounds and across the
  grid, written without the division by the extent of the bounds.
\<close>

definition spawnedParticle :: "WindData \<Rightarrow> real \<Rightarrow> random_source \<Rightarrow> nat \<Rightarrow> Particle \<Rightarrow> Particle" where
  "spawnedParticle wd maxAge rnd k p =
     \<lparr> p_id = p_id p,
       p_x = rnd k * of_int (width wd),
       p_y = (1 - rnd (k + 1)) * of_int (height wd),
       p_lng = west (bounds wd) + rnd k * (east (bounds wd) - west (bounds wd)),
       p_lat = south (bounds wd) + rnd (k + 1) * (north (bounds wd) - south (bounds wd)),
       p_age = 0,
       p_maxAge = maxAge + of_int \<lfloor>rnd (k + 2) * 30\<rfloor> - 15,
       p_trail = [(west (bounds wd) + rnd k * (east (bounds wd) - west (bounds wd)),
                   south (bounds wd) + rnd (k + 1) * (north (bounds wd) - south (bounds wd)))] \<rparr>"


section \<open>Concrete inputs\<close>

text \<open>\<^verbatim>\<open>HRRR_BOUNDS\<close> of \<^verbatim>\<open>hooks/useWindData.ts\<close>, lines 45-50.\<close>

definition HRRR_BOUNDS :: geo_bounds where
  "HRRR_BOUNDS = \<lparr> west = - 134.1, east = - 60.9, south = 21.1, north = 52.6 \<rparr>"

text \<open>A field of one pixel: \<open>r = g = 255\<close>, blue 0, valid.\<close>

definition testField :: WindData where
  "testField = \<lparr> width = 1, height = 1, data = [255, 255, 0, 255],
                 bounds = \<lparr> west = 0, east = 1, south = 0, north = 1 \<rparr> \<rparr>"

text \<open>
  A field of one pixel whose alpha byte is 0, the default props of the Skia component
  on it with a base count of one particle, and a sequence of draws: \<open>1/4\<close> for the four
  draws of \<open>initParticles\<close>, \<open>1/2\<close> afterwards.
\<close>

definition blankField :: WindData where
  "blankField = \<lparr> width = 1, height = 1, data = [0, 0, 0, 0],
                  bounds = \<lparr> west = 0, east = 1, south = 0, north = 1 \<rparr> \<rparr>"

definition blankProps :: SkiaProps where
  "blankProps = \<lparr> pr_windData = Some blankField, pr_mapBounds = Some ((1, 1), (0, 0)),
                  pr_zoom = 3, pr_baseParticleCount = 1, pr_trailLength = 15, pr_maxAge = 80 \<rparr>"


definition emptyState :: SimState where
  "emptyState = \<lparr> particles = [], draws = 0 \<rparr>"

text \<open>Draws for the Skia component whose latitude draw at the first respawn is exactly 0.\<close>

definition edgeDraws :: random_source where
  "edgeDraws n = (if n < 4 then 1/4 else if n = 5 then 0 else 1/2)"

text \<open>A degenerate field of width 0, and the default props on it.\<close>

definition zeroWidthField :: WindData where
  "zeroWidthField = \<lparr> width = 0, height = 5, data = [],
                      bounds = \<lparr> west = 0, east = 1, south = 0, north = 1 \<rparr> \<rparr>"

definition zeroProps :: SkiaProps where
  "zeroProps = \<lparr> pr_windData = Some zeroWidthField, pr_mapBounds = Some ((1, 1), (0, 0)),
                 pr_zoom = 3, pr_baseParticleCount = 1, pr_trailLength = 15, pr_maxAge = 80 \<rparr>"

text \<open>
  A field of \<open>2 \<times> 2\<close> pixels of which only pixel \<open>(0, 0)\<close> is valid; its red and green
  bytes decode to \<open>u = 10\<close> and \<open>v = -10\<close>. The default props on it with a given trail
  length, and draws that make \<open>initParticles\<close> put its particle at \<open>(1/10, 1/10)\<close> with
  age 0 and maximum age 65.
\<close>

definition trailField :: WindData where
  "trailField = \<lparr> width = 2, height = 2,
                  data = [153, 102, 0, 255,  0, 0, 0, 0,  0, 0, 0, 0,  0, 0, 0, 0],
                  bounds = \<lparr> west = 0, east = 2, south = 0, north = 2 \<rparr> \<rparr>"

definition trailProps :: "real \<Rightarrow> SkiaProps" where
  "trailProps len = \<lparr> pr_windData = Some trailField, pr_mapBounds = Some ((2, 2), (0, 0)),
                      pr_zoom = 3, pr_baseParticleCount = 1, pr_trailLength = len, pr_maxAge = 80 \<rparr>"

definition trailDraws :: random_source where
  "trailDraws n = (if n = 0 then 1/20 else if n = 1 then 19/20 else 0)"

text \<open>
  The deck.gl layer over the HRRR bounds while the map shows Europe at zoom 5: a field
  of \<open>2 \<times> 2\<close> invalid pixels, a particle in the middle of the grid that has reached
  its maximum age, and draws that are all \<open>1/2\<close>.
\<close>

definition deckField :: WindData where
  "deckField = \<lparr> width = 2, height = 2,
                 data = [0, 0, 0, 0,  0, 0, 0, 0,  0, 0, 0, 0,  0, 0, 0, 0],
                 bounds = HRRR_BOUNDS \<rparr>"

definition europeView :: geo_bounds where
  "europeView = \<lparr> west = 0, east = 10, south = 45, north = 50 \<rparr>"

definition deckProps :: DeckProps where
  "deckProps = \<lparr> dk_windData = Some deckField, dk_baseParticleCount = 4000,
                 dk_speedFactor = 0.08, dk_trailLength = 15, dk_maxAge = 80,
                 dk_viewBounds = Some europeView, dk_zoom = 5 \<rparr>"

definition halfDraws :: random_source where
  "halfDraws n = 1/2"

definition deckStart :: DeckState where
  "deckStart = \<lparr> d_particles = [\<lparr> d_id = 0, d_x = 1, d_y = 1, d_age = 65, d_maxAge = 65,
                                   d_trail = [(- 97.5, 36.85, 0)] \<rparr>],
                 d_draws = 0 \<rparr>"


section \<open>IEEE double arithmetic\<close>

text \<open>
  The model of the two places where a claim is about rounding. \<open>fl\<close> rounds a real number
  to the nearest binary64 value: 53 significant bits, ties to the even significand,
  gradual underflow (below \<open>2\<^sup>-\<^sup>1\<^sup>0\<^sup>2\<^sup>2\<close> the spacing stays \<open>2\<^sup>-\<^sup>1\<^sup>0\<^sup>7\<^sup>4\<close>). A JavaScript
  operation \<^verbatim>\<open>a op b\<close> on two doubles returns \<open>fl (a op b)\<close>. Overflow to \<^verbatim>\<open>Infinity\<close> is not
  represented (\<open>fl\<close> of a magnitude of \<open>2\<^sup>1\<^sup>0\<^sup>2\<^sup>4\<close> or more is outside the model), nor is \<^verbatim>\<open>NaN\<close>;
  everything below stays within magnitude \<open>2\<^sup>6\<^sup>2\<close> and divides by non-zero values only.
\<close>

definition roundEven :: "real \<Rightarrow> int" where
  "roundEven r =
     (let f = \<lfloor>r\<rfloor>; d = r - of_int f in
      if d < 1/2 then f else if 1/2 < d then f + 1 else if even f then f else f + 1)"

text \<open>The exponent of the unit in the last place of the binade of \<open>v\<close>.\<close>

definition ulpExp :: "real \<Rightarrow> int" where
  "ulpExp v = max \<lfloor>log 2 \<bar>v\<bar>\<rfloor> (- 1022) - 52"

definition fl :: "real \<Rightarrow> real" where
  "fl v = (if v = 0 then 0
           else of_int (roundEven (v / 2 powr of_int (ulpExp v))) * 2 powr of_int (ulpExp v))"

text \<open>Half the relative spacing, the smallest normal double, half the smallest spacing.\<close>

definition f64_eps :: real where
  "f64_eps = 2 powr (- 53)"

definition f64_minNormal :: real where
  "f64_minNormal = 2 powr (- 1022)"

definition f64_tiny :: real where
  "f64_tiny = 2 powr (- 1075)"


text \<open>
  The four affine mappings of \<^verbatim>\<open>SkiaWindParticles.tsx\<close> (lines 168-169 and 215-216) with
  every operation rounded. The width and the height are integers of magnitude at most
  \<open>2\<^sup>5\<^sup>3\<close>, which are doubles.
\<close>

definition f64_lngToX :: "geo_bounds \<Rightarrow> int \<Rightarrow> real \<Rightarrow> real" where
  "f64_lngToX b w lng = fl (fl (fl (lng - west b) / fl (east b - west b)) * of_int w)"

definition f64_latToY :: "geo_bounds \<Rightarrow> int \<Rightarrow> real \<Rightarrow> real" where
  "f64_latToY b h lat = fl (fl (fl (north b - lat) / fl (north b - south b)) * of_int h)"

definition f64_xToLng :: "geo_bounds \<Rightarrow> int \<Rightarrow> real \<Rightarrow> real" where
  "f64_xToLng b w x = fl (west b + fl (fl (x / of_int w) * fl (east b - west b)))"

definition f64_yToLat :: "geo_bounds \<Rightarrow> int \<Rightarrow> real \<Rightarrow> real" where
  "f64_yToLat b h y = fl (north b - fl (fl (y / of_int h) * fl (north b - south b)))"

text \<open>Bounds of very large magnitude, and bounds in whole degrees around the HRRR domain.\<close>

definition wideBounds :: geo_bounds where
  "wideBounds = \<lparr> west = - (2 ^ 60), east = 2 ^ 60, south = - 1, north = 1 \<rparr>"

definition degreeBounds :: geo_bounds where
  "degreeBounds = \<lparr> west = - 134, east = - 61, south = 21, north = 53 \<rparr>"

section \<open>Properties of the decoder\<close>


lemma byteVal_numeral [simp]: "byteVal 0 = 0" "byteVal 128 = 128" "byteVal 255 = 255"
  by (simp_all add: byteVal_def)


section \<open>Properties of the sampler\<close>

lemma byteAt_before:
  assumes "byteAt d (i + 3) = Some av" and "0 \<le> i"
  shows "\<exists>rv gv. byteAt d i = Some rv \<and> byteAt d (i + 1) = Some gv"
  using assms by (simp add: byteAt_def split: if_splits)

lemma pixel_index_in_buffer:
  assumes wf: "wellFormed wd"
    and px: "0 \<le> px" "px < width wd" and py: "0 \<le> py" "py < height wd"
  shows "0 \<le> (py * width wd + px) * 4 \<and> (py * width wd + px) * 4 + 3 < int (length (data wd))"
proof -
  have w: "0 < width wd" and len: "int (length (data wd)) = 4 * width wd * height wd"
    using wf by (simp_all add: wellFormed_def)
  have "0 \<le> py * width wd" using py(1) w by simp
  then have lo: "0 \<le> (py * width wd + px) * 4" using px(1) by simp
  have "py + 1 \<le> height wd" using py(2) by simp
  then have "(py + 1) * width wd \<le> height wd * width wd"
    using w by (simp add: mult_right_mono)
  then have "py * width wd + px + 1 \<le> height wd * width wd"
    using px(2) by (simp add: algebra_simps)
  then have "(py * width wd + px) * 4 + 3 < 4 * width wd * height wd"
    by (simp add: algebra_simps)
  with lo len show ?thesis by simp
qed

lemma testField_simps [simp]:
  "width testField = 1" "height testField = 1" "data testField = [255, 255, 0, 255]"
  by (simp_all add: testField_def)

lemma wellFormed_testField: "wellFormed testField"
  by (simp add: wellFormed_def)

lemma getWindAtPixel_testField:
  "getWindAtPixel (Some testField) (1/2) (1/4) =
     Some \<lparr> s_u = Some 50, s_v = Some 50, s_magnitude = Some 0 \<rparr>"
  by (simp add: getWindAtPixel_def byteAt_def decodeWindComponent1_def decodeWindComponent_def byteVal_def)

text \<open>
  C7. \<open>getWindAtPixel\<close> on a loaded field returns \<^verbatim>\<open>null\<close> exactly when the floored pixel
  lies outside \<open>[0, width) \<times> [0, height)\<close> or the alpha byte of that pixel is 0. On a
  well-formed field, at an in-range pixel with non-zero alpha, it returns the decoded
  \<open>u\<close> and \<open>v\<close> of the red and green bytes. The result is that of the floored coordinates;
  being a function of the field and the coordinates only is how the model is typed.
\<close>

theorem getWindAtPixel_invalid_iff:
  "(getWindAtPixel (Some wd) x y = None \<longleftrightarrow>
      (\<lfloor>x\<rfloor> < 0 \<or> \<lfloor>x\<rfloor> \<ge> width wd \<or> \<lfloor>y\<rfloor> < 0 \<or> \<lfloor>y\<rfloor> \<ge> height wd
       \<or> byteAt (data wd) ((\<lfloor>y\<rfloor> * width wd + \<lfloor>x\<rfloor>) * 4 + 3) = Some 0))
   \<and> (wellFormed wd \<and> 0 \<le> \<lfloor>x\<rfloor> \<and> \<lfloor>x\<rfloor> < width wd \<and> 0 \<le> \<lfloor>y\<rfloor> \<and> \<lfloor>y\<rfloor> < height wd
        \<and> data wd ! nat ((\<lfloor>y\<rfloor> * width wd + \<lfloor>x\<rfloor>) * 4 + 3) \<noteq> 0 \<longrightarrow>
      (\<exists>s. getWindAtPixel (Some wd) x y = Some s
         \<and> s_u s = Some (decodeWindComponent (byteVal (data wd ! nat ((\<lfloor>y\<rfloor> * width wd + \<lfloor>x\<rfloor>) * 4))) (- 50) 50)
         \<and> s_v s = Some (decodeWindComponent (byteVal (data wd ! nat ((\<lfloor>y\<rfloor> * width wd + \<lfloor>x\<rfloor>) * 4 + 1))) (- 50) 50)))
   \<and> getWindAtPixel (Some wd) x y = getWindAtPixel (Some wd) (of_int \<lfloor>x\<rfloor>) (of_int \<lfloor>y\<rfloor>)"
proof (intro conjI impI)
  show "getWindAtPixel (Some wd) x y = None \<longleftrightarrow>
      (\<lfloor>x\<rfloor> < 0 \<or> \<lfloor>x\<rfloor> \<ge> width wd \<or> \<lfloor>y\<rfloor> < 0 \<or> \<lfloor>y\<rfloor> \<ge> height wd
       \<or> byteAt (data wd) ((\<lfloor>y\<rfloor> * width wd + \<lfloor>x\<rfloor>) * 4 + 3) = Some 0)"
    by (simp add: getWindAtPixel_def Let_def)
next
  show "getWindAtPixel (Some wd) x y = getWindAtPixel (Some wd) (of_int \<lfloor>x\<rfloor>) (of_int \<lfloor>y\<rfloor>)"
    by (simp add: getWindAtPixel_def)
next
  assume h: "wellFormed wd \<and> 0 \<le> \<lfloor>x\<rfloor> \<and> \<lfloor>x\<rfloor> < width wd \<and> 0 \<le> \<lfloor>y\<rfloor> \<and> \<lfloor>y\<rfloor> < height wd
        \<and> data wd ! nat ((\<lfloor>y\<rfloor> * width wd + \<lfloor>x\<rfloor>) * 4 + 3) \<noteq> 0"
  let ?i = "(\<lfloor>y\<rfloor> * width wd + \<lfloor>x\<rfloor>) * 4"
  from h have rng: "0 \<le> ?i \<and> ?i + 3 < int (length (data wd))"
    by (intro pixel_index_in_buffer) simp_all
  then have r: "byteAt (data wd) ?i = Some (data wd ! nat ?i)"
    and g: "byteAt (data wd) (?i + 1) = Some (data wd ! nat (?i + 1))"
    and a: "byteAt (data wd) (?i + 3) = Some (data wd ! nat (?i + 3))"
    by (simp_all add: byteAt_def)
  from h have nz: "data wd ! nat (?i + 3) \<noteq> 0" by simp
  from h have inr: "\<not> (\<lfloor>x\<rfloor> < 0 \<or> \<lfloor>x\<rfloor> \<ge> width wd \<or> \<lfloor>y\<rfloor> < 0 \<or> \<lfloor>y\<rfloor> \<ge> height wd)" by simp
  show "\<exists>s. getWindAtPixel (Some wd) x y = Some s
         \<and> s_u s = Some (decodeWindComponent (byteVal (data wd ! nat ?i)) (- 50) 50)
         \<and> s_v s = Some (decodeWindComponent (byteVal (data wd ! nat (?i + 1))) (- 50) 50)"
    using inr r g a nz by (simp add: getWindAtPixel_def Let_def decodeWindComponent1_def)
qed

theorem getWindAtPixel_invalid_iff_witness:
  "wellFormed testField
   \<and> getWindAtPixel (Some testField) (1/2) (1/4) \<noteq> None
   \<and> (\<exists>s. getWindAtPixel (Some testField) (1/2) (1/4) = Some s
          \<and> s_u s = Some (decodeWindComponent 255 (- 50) 50)
          \<and> s_v s = Some (decodeWindComponent 255 (- 50) 50))
   \<and> getWindAtPixel (Some testField) (3/2) (1/4) = None"
proof -
  have a: "\<exists>s. getWindAtPixel (Some testField) (1/2) (1/4) = Some s
          \<and> s_u s = Some (decodeWindComponent 255 (- 50) 50)
          \<and> s_v s = Some (decodeWindComponent 255 (- 50) 50)"
  proof -
    have pre: "wellFormed testField \<and> 0 \<le> \<lfloor>1/2 :: real\<rfloor> \<and> \<lfloor>1/2 :: real\<rfloor> < width testField
        \<and> 0 \<le> \<lfloor>1/4 :: real\<rfloor> \<and> \<lfloor>1/4 :: real\<rfloor> < height testField
        \<and> data testField ! nat ((\<lfloor>1/4 :: real\<rfloor> * width testField + \<lfloor>1/2 :: real\<rfloor>) * 4 + 3) \<noteq> 0"
      by (simp add: wellFormed_testField)
    from getWindAtPixel_invalid_iff [of testField "1/2" "1/4", THEN conjunct2, THEN conjunct1, THEN mp, OF pre]
    show ?thesis by simp
  qed
  have b: "getWindAtPixel (Some testField) (3/2) (1/4) = None"
    using getWindAtPixel_invalid_iff [of testField "3/2" "1/4"] by simp
  from a have c: "getWindAtPixel (Some testField) (1/2) (1/4) \<noteq> None" by auto
  from wellFormed_testField a b c show ?thesis by (simp only: simp_thms)
qed

text \<open>
  C10. On a well-formed field, at an in-range pixel with non-zero alpha, the magnitude
  returned by \<open>getWindAtPixel\<close> is \<open>blue / 255 * 70.7\<close>: a function of the blue byte alone,
  in which neither the red and green bytes nor any decode range occur.
\<close>

theorem getWindAtPixel_magnitude_blue:
  assumes "wellFormed wd"
    and "0 \<le> \<lfloor>x\<rfloor>" "\<lfloor>x\<rfloor> < width wd" "0 \<le> \<lfloor>y\<rfloor>" "\<lfloor>y\<rfloor> < height wd"
    and "data wd ! nat ((\<lfloor>y\<rfloor> * width wd + \<lfloor>x\<rfloor>) * 4 + 3) \<noteq> 0"
  shows "\<exists>s. getWindAtPixel (Some wd) x y = Some s
           \<and> s_magnitude s = Some ((byteVal (data wd ! nat ((\<lfloor>y\<rfloor> * width wd + \<lfloor>x\<rfloor>) * 4 + 2)) / 255) * 70.7)"
proof -
  let ?i = "(\<lfloor>y\<rfloor> * width wd + \<lfloor>x\<rfloor>) * 4"
  from assms have rng: "0 \<le> ?i \<and> ?i + 3 < int (length (data wd))"
    by (intro pixel_index_in_buffer)
  then have b: "byteAt (data wd) (?i + 2) = Some (data wd ! nat (?i + 2))"
    and a: "byteAt (data wd) (?i + 3) = Some (data wd ! nat (?i + 3))"
    by (simp_all add: byteAt_def)
  from assms have inr: "\<not> (\<lfloor>x\<rfloor> < 0 \<or> \<lfloor>x\<rfloor> \<ge> width wd \<or> \<lfloor>y\<rfloor> < 0 \<or> \<lfloor>y\<rfloor> \<ge> height wd)" by simp
  show ?thesis
    using inr b a assms(6) by (simp add: getWindAtPixel_def Let_def)
qed

text \<open>
  The pixel of \<open>testField\<close> decodes to \<open>u = v = 50\<close> and still reports magnitude 0, not
  \<open>sqrt (u\<^sup>2 + v\<^sup>2)\<close>.
\<close>

theorem getWindAtPixel_magnitude_blue_witness:
  "wellFormed testField
   \<and> (\<exists>s. getWindAtPixel (Some testField) (1/2) (1/4) = Some s
          \<and> s_u s = Some 50 \<and> s_v s = Some 50 \<and> s_magnitude s = Some 0)"
proof -
  have "\<exists>s. getWindAtPixel (Some testField) (1/2) (1/4) = Some s
           \<and> s_magnitude s = Some ((byteVal (data testField ! nat ((\<lfloor>1/4 :: real\<rfloor> * width testField + \<lfloor>1/2 :: real\<rfloor>) * 4 + 2)) / 255) * 70.7)"
    by (rule getWindAtPixel_magnitude_blue [OF wellFormed_testField]) simp_all
  then show ?thesis
    by (simp add: wellFormed_testField getWindAtPixel_testField)
qed

section \<open>Properties of the zoom policy\<close>

lemma floor_scale_mono:
  fixes b :: real
  assumes "0 \<le> b" and "c \<le> c'"
  shows "(of_int \<lfloor>b * c\<rfloor> :: real) \<le> of_int \<lfloor>b * c'\<rfloor>"
proof -
  have "b * c \<le> b * c'" using assms by (rule mult_left_mono[rotated])
  then have "\<lfloor>b * c\<rfloor> \<le> \<lfloor>b * c'\<rfloor>" by (rule floor_mono)
  then show ?thesis by simp
qed

lemma floor_half_le:
  fixes b :: real
  assumes "0 \<le> b"
  shows "(of_int \<lfloor>b * 0.5\<rfloor> :: real) \<le> b"
proof -
  have "(of_int \<lfloor>b * 0.5\<rfloor> :: real) \<le> b * 0.5" by (rule of_int_floor_le)
  also have "\<dots> \<le> b" using assms by simp
  finally show ?thesis .
qed

lemma getParticleCount_antimono:
  assumes "z1 < z2" and "0 \<le> b"
  shows "getParticleCount z2 b \<le> getParticleCount z1 b"
proof -
  define c5 where "c5 = (of_int \<lfloor>b * 0.5\<rfloor> :: real)"
  define c2 where "c2 = (of_int \<lfloor>b * 0.2\<rfloor> :: real)"
  define c08 where "c08 = (of_int \<lfloor>b * 0.08\<rfloor> :: real)"
  define c04 where "c04 = (of_int \<lfloor>b * 0.04\<rfloor> :: real)"
  define c025 where "c025 = (of_int \<lfloor>b * 0.025\<rfloor> :: real)"
  have s1: "c5 \<le> b" unfolding c5_def using assms(2) by (rule floor_half_le)
  have s2: "c2 \<le> c5" unfolding c2_def c5_def using assms(2) by (rule floor_scale_mono) simp
  have s3: "c08 \<le> c2" unfolding c08_def c2_def using assms(2) by (rule floor_scale_mono) simp
  have s4: "c04 \<le> c08" unfolding c04_def c08_def using assms(2) by (rule floor_scale_mono) simp
  have s5: "c025 \<le> c04" unfolding c025_def c04_def using assms(2) by (rule floor_scale_mono) simp
  have eq: "getParticleCount z b =
     (if z < 4 then b else if z < 6 then c5 else if z < 8 then c2
      else if z < 10 then c08 else if z < 12 then c04 else c025)" for z
    by (simp add: getParticleCount_def c5_def c2_def c08_def c04_def c025_def)
  show ?thesis
    unfolding eq using assms(1) s1 s2 s3 s4 s5 by (simp split: if_splits)
qed

lemma getSpeedFactor_antimono:
  assumes "z1 < z2"
  shows "getSpeedFactor z2 \<le> getSpeedFactor z1"
  using assms by (simp add: getSpeedFactor_def)

text \<open>
  C8. For zoom values \<open>z1 < z2\<close> and a base count that is not negative, the particle
  count and the speed factor of the Skia component at \<open>z1\<close> are at least those at \<open>z2\<close>.
\<close>

theorem zoom_policy_monotone:
  assumes "z1 < z2" and "0 \<le> baseCount"
  shows "getParticleCount z1 baseCount \<ge> getParticleCount z2 baseCount
       \<and> getSpeedFactor z1 \<ge> getSpeedFactor z2"
  using getParticleCount_antimono [OF assms] getSpeedFactor_antimono [OF assms(1)] by simp

theorem zoom_policy_monotone_witness:
  "(5 :: real) < 7 \<and> (0 :: real) \<le> 2000
   \<and> getParticleCount 5 2000 = 1000 \<and> getParticleCount 7 2000 = 400
   \<and> getParticleCount 5 2000 \<ge> getParticleCount 7 2000
   \<and> getSpeedFactor 5 \<ge> getSpeedFactor 7"
proof -
  have a: "(5 :: real) < 7" and b: "(0 :: real) \<le> 2000" by simp_all
  have c: "getParticleCount 5 2000 = 1000" "getParticleCount 7 2000 = 400"
    by (simp_all add: getParticleCount_def)
  from zoom_policy_monotone [OF a b] a b c show ?thesis by (simp only: simp_thms)
qed

section \<open>The projection between geographic and pixel space\<close>

text \<open>
  In exact arithmetic the mapping to pixel space and the mapping back are inverses of
  each other.
\<close>

lemma projection_exact_round_trip:
  assumes "west b < east b" and "south b < north b" and "0 < w" and "0 < h"
  shows "xToLng b w (lngToX b w lng) = lng \<and> yToLat b h (latToY b h lat) = lat"
proof -
  have ew: "east b - west b \<noteq> 0" and ns: "north b - south b \<noteq> 0"
    using assms(1,2) by simp_all
  have w: "(of_int w :: real) \<noteq> 0" and h: "(of_int h :: real) \<noteq> 0"
    using assms(3,4) by simp_all
  have x: "xToLng b w (lngToX b w lng) = lng"
    using ew w by (simp add: xToLng_def lngToX_def)
  have y: "yToLat b h (latToY b h lat) = lat"
    using ns h by (simp add: yToLat_def latToY_def)
  show ?thesis by (simp add: x y)
qed

lemma getParticleCount_table:
  "getParticleCount z (of_int n) = of_int (spec_particleCount z n)"
  by (simp add: getParticleCount_def spec_particleCount_def spec_countMultiplier_def)

lemma getTrailLength_table:
  "getTrailLength z (of_int m) = of_int (spec_trailLength z m)"
  by (simp add: getTrailLength_def spec_trailLength_def spec_trailMultiplier_def max_def)

lemma getSpeedFactor_table:
  "\<exists>m. getSpeedFactor z = m * getSpeedFactor 0 \<and> inRange (spec_speedMultiplierRange z) m"
proof -
  have "getSpeedFactor z = (getSpeedFactor z / 0.08) * getSpeedFactor 0"
    by (simp add: getSpeedFactor_def)
  moreover have "inRange (spec_speedMultiplierRange z) (getSpeedFactor z / 0.08)"
    by (simp add: getSpeedFactor_def spec_speedMultiplierRange_def inRange_def)
  ultimately show ?thesis by blast
qed

lemma deck_getSpeedFactor_table:
  "\<exists>m. deck_getSpeedFactor z s = m * deck_getSpeedFactor 0 s
       \<and> (if 4 \<le> z \<and> z < 6 then m = 0.7 else inRange (spec_speedMultiplierRange z) m)"
proof -
  define m :: real where "m = (if z < 4 then 1 else if z < 6 then 0.7 else if z < 8 then 0.4
      else if z < 10 then 0.15 else if z < 12 then 0.06 else 0.02)"
  have "deck_getSpeedFactor z s = m * deck_getSpeedFactor 0 s"
    by (simp add: deck_getSpeedFactor_def m_def)
  moreover have "(if 4 \<le> z \<and> z < 6 then m = 0.7 else inRange (spec_speedMultiplierRange z) m)"
    by (simp add: m_def spec_speedMultiplierRange_def inRange_def)
  ultimately show ?thesis by blast
qed

text \<open>
  C9, as amended. With integer base values, the particle count and the trail length of
  the Skia component are those of the table (the floor of base times multiplier, the
  trail not below 3 from zoom 12 on), and its speed factor relative to the value below
  zoom 4 lies in the table's range on every row, exactly 0.75 on zoom 4 to 6. The speed
  factor of the deck.gl layer lies in the table's range on every row but zoom 4 to 6,
  where its multiplier is 0.7.
\<close>

theorem zoom_table_conformance:
  "getParticleCount z (of_int n) = of_int (spec_particleCount z n)
   \<and> getTrailLength z (of_int l) = of_int (spec_trailLength z l)
   \<and> (\<exists>m. getSpeedFactor z = m * getSpeedFactor 0 \<and> inRange (spec_speedMultiplierRange z) m)
   \<and> (4 \<le> z \<and> z < 6 \<longrightarrow> getSpeedFactor z = 0.75 * getSpeedFactor 0)
   \<and> (\<exists>m. deck_getSpeedFactor z s = m * deck_getSpeedFactor 0 s
          \<and> (if 4 \<le> z \<and> z < 6 then m = 0.7 else inRange (spec_speedMultiplierRange z) m))"
proof -
  have "4 \<le> z \<and> z < 6 \<longrightarrow> getSpeedFactor z = 0.75 * getSpeedFactor 0"
    by (simp add: getSpeedFactor_def)
  with getParticleCount_table getTrailLength_table getSpeedFactor_table deck_getSpeedFactor_table
  show ?thesis by (simp only: simp_thms)
qed

theorem zoom_table_conformance_witness:
  "getParticleCount 13 2000 = 50 \<and> getTrailLength 13 15 = 3
   \<and> (4 \<le> (5::real) \<and> (5::real) < 6) \<and> getSpeedFactor 5 = 0.75 * getSpeedFactor 0
   \<and> deck_getSpeedFactor 5 0.08 = 0.7 * deck_getSpeedFactor 0 0.08"
proof -
  have a: "getParticleCount 13 2000 = 50" "getTrailLength 13 15 = 3"
    using zoom_table_conformance [of 13 2000 15 0]
    by (simp_all add: spec_particleCount_def spec_trailLength_def spec_countMultiplier_def spec_trailMultiplier_def)
  have r: "4 \<le> (5::real) \<and> (5::real) < 6" by simp
  from zoom_table_conformance [of 5 0 0 "0.08"] r
  have b: "getSpeedFactor 5 = 0.75 * getSpeedFactor 0" by (simp only: simp_thms)
  have c: "deck_getSpeedFactor 5 0.08 = 0.7 * deck_getSpeedFactor 0 0.08"
    by (simp add: deck_getSpeedFactor_def)
  from a r b c show ?thesis by (simp only: simp_thms)
qed

text \<open>
  C9 as stated fails on the deck.gl layer: at zoom 5 its speed factor is 0.7 times the
  value below zoom 4, not 0.75 times.
\<close>

theorem deck_speed_multiplier_counterexample:
  "deck_getSpeedFactor 5 0.08 \<noteq> 0.75 * deck_getSpeedFactor 3 0.08
   \<and> \<not> inRange (spec_speedMultiplierRange 5) (deck_getSpeedFactor 5 0.08 / deck_getSpeedFactor 3 0.08)"
  by (simp add: deck_getSpeedFactor_def spec_speedMultiplierRange_def inRange_def)

section \<open>Basic facts about a tick\<close>

lemma allAlphaZero_nth:
  "allAlphaZero d \<Longrightarrow> 4 * n + 3 < length d \<Longrightarrow> d ! (4 * n + 3) = 0"
proof (induction d arbitrary: n rule: allAlphaZero.induct)
  case (1 r g b a rest)
  show ?case
  proof (cases n)
    case 0
    with "1.prems" show ?thesis by simp
  next
    case (Suc m)
    have idx: "4 * n + 3 = Suc (Suc (Suc (Suc (4 * m + 3))))" using Suc by simp
    have step: "(r # g # b # a # rest) ! (4 * n + 3) = rest ! (4 * m + 3)"
      by (simp only: idx nth_Cons_Suc)
    from "1.prems" Suc have "allAlphaZero rest" and "4 * m + 3 < length rest" by simp_all
    then have "rest ! (4 * m + 3) = 0" by (rule "1.IH")
    with step show ?thesis by simp
  qed
qed simp_all

lemma allAlphaZero_invalid:
  assumes "allAlphaZero (data wd)"
  shows "\<not> validSample wd x y"
proof
  assume v: "validSample wd x y"
  let ?px = "\<lfloor>x\<rfloor>" and ?py = "\<lfloor>y\<rfloor>"
  let ?n = "?py * width wd + ?px"
  from v have px: "0 \<le> ?px" "?px < width wd" and py: "0 \<le> ?py"
    by (simp_all add: validSample_def Let_def)
  from v obtain av where av: "byteAt (data wd) (?n * 4 + 3) = Some av" and pos: "byteVal av > 0"
    by (auto simp: validSample_def Let_def split: option.splits)
  have w: "0 \<le> width wd" using px by linarith
  have n0: "0 \<le> ?n" using px py w by simp
  from n0 obtain m where m: "?n = int m" by (rule nonneg_int_cases)
  have im: "?n * 4 + 3 = int (4 * m + 3)" by (simp add: m)
  from av have lt: "int (4 * m + 3) < int (length (data wd))" and eq: "data wd ! nat (int (4 * m + 3)) = av"
    by (simp_all only: im byteAt_def split: if_splits) simp_all
  from lt have "4 * m + 3 < length (data wd)" by (simp only: of_nat_less_iff)
  with assms have "data wd ! (4 * m + 3) = 0" by (rule allAlphaZero_nth)
  with eq have "av = 0" by (simp only: nat_int)
  with pos show False by (simp add: byteVal_def)
qed

lemma advect_invalid:
  assumes "\<not> validSample wd (p_x p) (p_y p)"
  shows "advect wd sf L p = p"
  using assms
  by (auto simp: advect_def validSample_def Let_def split: option.splits)

lemma updateParticle_invalid:
  assumes "\<not> validSample wd (p_x p) (p_y p)"
  shows "updateParticle wd sf L mA rnd p k =
     (if needsReset wd (p\<lparr> p_age := p_age p + 1 \<rparr>)
      then (respawn wd mA rnd k (p\<lparr> p_age := p_age p + 1 \<rparr>), k + 3)
      else (p\<lparr> p_age := p_age p + 1 \<rparr>, k))"
  by (simp add: updateParticle_def advect_invalid [OF assms] Let_def)


lemma respawn_position:
  assumes b: "west (bounds wd) < east (bounds wd)" "south (bounds wd) < north (bounds wd)"
  shows "p_x (respawn wd mA rnd k p) = rnd k * of_int (width wd)"
    and "p_y (respawn wd mA rnd k p) = (1 - rnd (k + 1)) * of_int (height wd)"
proof -
  have ew: "east (bounds wd) - west (bounds wd) \<noteq> 0" and ns: "north (bounds wd) - south (bounds wd) \<noteq> 0"
    using b by simp_all
  show "p_x (respawn wd mA rnd k p) = rnd k * of_int (width wd)"
    using ew by (simp add: respawn_def lngToX_def Let_def)
  have "p_y (respawn wd mA rnd k p) =
          (north (bounds wd) - (south (bounds wd) + rnd (k + 1) * (north (bounds wd) - south (bounds wd))))
            / (north (bounds wd) - south (bounds wd)) * of_int (height wd)"
    by (simp add: respawn_def latToY_def Let_def)
  also have "(north (bounds wd) - (south (bounds wd) + rnd (k + 1) * (north (bounds wd) - south (bounds wd))))
          / (north (bounds wd) - south (bounds wd)) = 1 - rnd (k + 1)"
    using ns by (simp add: field_simps)
  finally show "p_y (respawn wd mA rnd k p) = (1 - rnd (k + 1)) * of_int (height wd)" .
qed


lemma forEachParticle_rel:
  assumes "\<And>p k. R p (fst (f p k))"
  shows "list_all2 R ps (fst (forEachParticle f ps k))"
proof (induction ps arbitrary: k)
  case Nil
  show ?case by simp
next
  case (Cons p ps)
  obtain p' k' where f: "f p k = (p', k')" by (cases "f p k")
  obtain ps' k'' where r: "forEachParticle f ps k' = (ps', k'')" by (cases "forEachParticle f ps k'")
  have "R p p'" using assms [of p k] f by simp
  moreover have "list_all2 R ps ps'" using Cons.IH [of k'] r by simp
  ultimately show ?case using f r by simp
qed

lemma forEachParticle_length:
  "length (fst (forEachParticle f ps k)) = length ps"
proof -
  have "list_all2 (\<lambda>p p'. True) ps (fst (forEachParticle f ps k))"
    by (rule forEachParticle_rel) simp
  then show ?thesis by (simp add: list_all2_lengthD)
qed

section \<open>Coasting over invalid pixels\<close>

lemma respawn_trail: "length (p_trail (respawn wd mA rnd k p)) = 1"
  by (simp add: respawn_def Let_def)

lemma needsReset_iff:
  "needsReset wd p \<longleftrightarrow> p_age p > p_maxAge p \<or> \<not> inGrid wd (p_x p) (p_y p)"
  by (auto simp: needsReset_def inGrid_def)




lemma updateParticles_particles:
  assumes "pr_windData props = Some wd" and "pr_mapBounds props = Some mb"
  shows "particles (updateParticles props rnd st) =
     fst (forEachParticle
            (updateParticle wd (getSpeedFactor (pr_zoom props))
               (getTrailLength (pr_zoom props) (pr_trailLength props)) (pr_maxAge props) rnd)
            (particles st) (draws st))"
  by (simp add: updateParticles_def assms Let_def split: prod.splits)



lemma blank_simps [simp]:
  "pr_windData blankProps = Some blankField"
  "pr_mapBounds blankProps = Some ((1, 1), (0, 0))"
  "pr_zoom blankProps = 3" "pr_baseParticleCount blankProps = 1"
  "pr_trailLength blankProps = 15" "pr_maxAge blankProps = 80"
  "width blankField = 1" "height blankField = 1" "data blankField = [0, 0, 0, 0]"
  "bounds blankField = \<lparr> west = 0, east = 1, south = 0, north = 1 \<rparr>"
  by (simp_all add: blankProps_def blankField_def)



lemma coast_eq:
  assumes "pr_windData props = Some wd" and "pr_mapBounds props = Some mb"
    and "allAlphaZero (data wd)"
    and "inGrid wd (p_x p) (p_y p)" and "p_age p + real n \<le> p_maxAge p"
  shows "(updateParticles props rnd ^^ n) \<lparr> particles = [p], draws = k \<rparr> =
         \<lparr> particles = [p\<lparr> p_age := p_age p + real n \<rparr>], draws = k \<rparr>"
  using assms(5)
proof (induction n)
  case 0
  show ?case by simp
next
  case (Suc n)
  then have "p_age p + real n \<le> p_maxAge p" by simp
  then have IH: "(updateParticles props rnd ^^ n) \<lparr> particles = [p], draws = k \<rparr> =
         \<lparr> particles = [p\<lparr> p_age := p_age p + real n \<rparr>], draws = k \<rparr>" by (rule Suc.IH)
  let ?q = "p\<lparr> p_age := p_age p + real n \<rparr>"
  have inv: "\<not> validSample wd (p_x ?q) (p_y ?q)" using assms(3) by (rule allAlphaZero_invalid)
  have nr: "\<not> needsReset wd (?q\<lparr> p_age := p_age ?q + 1 \<rparr>)"
    using assms(4) Suc.prems by (simp add: needsReset_iff add.assoc)
  have "updateParticle wd sf L mA rnd ?q k = (?q\<lparr> p_age := p_age ?q + 1 \<rparr>, k)" for sf L mA
    unfolding updateParticle_invalid [OF inv] using nr by simp
  then have "updateParticles props rnd \<lparr> particles = [?q], draws = k \<rparr> =
      \<lparr> particles = [?q\<lparr> p_age := p_age ?q + 1 \<rparr>], draws = k \<rparr>"
    by (simp add: updateParticles_def assms(1,2) Let_def)
  then show ?case by (simp add: IH add.assoc)
qed




section \<open>Degenerate fields\<close>

lemma forEachParticle_draws:
  assumes "\<And>p k. snd (f p k) = k + c"
  shows "snd (forEachParticle f ps k) = k + c * length ps"
proof (induction ps arbitrary: k)
  case Nil
  show ?case by simp
next
  case (Cons p ps)
  obtain p' k' where f: "f p k = (p', k')" by (cases "f p k")
  obtain ps' k'' where r: "forEachParticle f ps k' = (ps', k'')" by (cases "forEachParticle f ps k'")
  have "k' = k + c" using assms [of p k] f by simp
  moreover have "k'' = k' + c * length ps" using Cons.IH [of k'] r by simp
  ultimately show ?case using f r by (simp add: algebra_simps)
qed


lemma updateParticles_draws:
  assumes "pr_windData props = Some wd" and "pr_mapBounds props = Some mb"
  shows "draws (updateParticles props rnd st) =
     snd (forEachParticle
            (updateParticle wd (getSpeedFactor (pr_zoom props))
               (getTrailLength (pr_zoom props) (pr_trailLength props)) (pr_maxAge props) rnd)
            (particles st) (draws st))"
  by (simp add: updateParticles_def assms Let_def split: prod.splits)

lemma zero_simps [simp]:
  "pr_windData zeroProps = Some zeroWidthField"
  "pr_mapBounds zeroProps = Some ((1, 1), (0, 0))"
  "pr_zoom zeroProps = 3" "pr_baseParticleCount zeroProps = 1"
  "pr_trailLength zeroProps = 15" "pr_maxAge zeroProps = 80"
  "width zeroWidthField = 0" "height zeroWidthField = 5" "data zeroWidthField = []"
  "bounds zeroWidthField = \<lparr> west = 0, east = 1, south = 0, north = 1 \<rparr>"
  by (simp_all add: zeroProps_def zeroWidthField_def)





lemma spawnedParticle_age [simp]:
  "spawnedParticle wd mA rnd k (p\<lparr> p_age := a \<rparr>) = spawnedParticle wd mA rnd k p"
  by (simp add: spawnedParticle_def)




section \<open>Trail length\<close>

lemma trail_simps [simp]:
  "pr_windData (trailProps len) = Some trailField"
  "pr_mapBounds (trailProps len) = Some ((2, 2), (0, 0))"
  "pr_zoom (trailProps len) = 3" "pr_baseParticleCount (trailProps len) = 1"
  "pr_trailLength (trailProps len) = len" "pr_maxAge (trailProps len) = 80"
  "width trailField = 2" "height trailField = 2"
  "data trailField = [153, 102, 0, 255,  0, 0, 0, 0,  0, 0, 0, 0,  0, 0, 0, 0]"
  "bounds trailField = \<lparr> west = 0, east = 2, south = 0, north = 2 \<rparr>"
  by (simp_all add: trailProps_def trailField_def)

lemma initParticles_trail:
  "initParticles (trailProps 15) trailDraws emptyState =
     \<lparr> particles = [\<lparr> p_id = 0, p_x = 1/10, p_y = 1/10, p_lng = 1/10, p_lat = 19/10,
                      p_age = 0, p_maxAge = 65, p_trail = [(1/10, 19/10)] \<rparr>],
       draws = 4 \<rparr>"
  by (simp add: initParticles_def emptyState_def getParticleCount_def initLoop.simps
        lngToX_def latToY_def trailDraws_def Let_def)

lemma byteVal_153 [simp]: "byteVal 153 = 153" "byteVal 102 = 102"
  by (simp_all add: byteVal_def)

lemma tick1_trail:
  "updateParticles (trailProps 15) trailDraws
     \<lparr> particles = [\<lparr> p_id = 0, p_x = 1/10, p_y = 1/10, p_lng = 1/10, p_lat = 19/10,
                      p_age = 0, p_maxAge = 65, p_trail = [(1/10, 19/10)] \<rparr>],
       draws = 4 \<rparr> =
     \<lparr> particles = [\<lparr> p_id = 0, p_x = 9/10, p_y = 9/10, p_lng = 9/10, p_lat = 11/10,
                      p_age = 1, p_maxAge = 65, p_trail = [(9/10, 11/10), (1/10, 19/10)] \<rparr>],
       draws = 4 \<rparr>"
  by (simp add: updateParticles_def updateParticle_def advect_def byteAt_def
        getSpeedFactor_def getTrailLength_def xToLng_def yToLat_def
        needsReset_def Let_def)

lemma tick2_trail:
  "updateParticles (trailProps 15) trailDraws
     \<lparr> particles = [\<lparr> p_id = 0, p_x = 9/10, p_y = 9/10, p_lng = 9/10, p_lat = 11/10,
                      p_age = 1, p_maxAge = 65, p_trail = [(9/10, 11/10), (1/10, 19/10)] \<rparr>],
       draws = 4 \<rparr> =
     \<lparr> particles = [\<lparr> p_id = 0, p_x = 17/10, p_y = 17/10, p_lng = 17/10, p_lat = 3/10,
                      p_age = 2, p_maxAge = 65,
                      p_trail = [(17/10, 3/10), (9/10, 11/10), (1/10, 19/10)] \<rparr>],
       draws = 4 \<rparr>"
  by (simp add: updateParticles_def updateParticle_def advect_def byteAt_def
        getSpeedFactor_def getTrailLength_def xToLng_def yToLat_def
        needsReset_def Let_def)

lemma tick3_trail:
  "updateParticles (trailProps 2) trailDraws
     \<lparr> particles = [\<lparr> p_id = 0, p_x = 17/10, p_y = 17/10, p_lng = 17/10, p_lat = 3/10,
                      p_age = 2, p_maxAge = 65,
                      p_trail = [(17/10, 3/10), (9/10, 11/10), (1/10, 19/10)] \<rparr>],
       draws = 4 \<rparr> =
     \<lparr> particles = [\<lparr> p_id = 0, p_x = 17/10, p_y = 17/10, p_lng = 17/10, p_lat = 3/10,
                      p_age = 3, p_maxAge = 65,
                      p_trail = [(17/10, 3/10), (9/10, 11/10), (1/10, 19/10)] \<rparr>],
       draws = 4 \<rparr>"
  by (simp add: updateParticles_def updateParticle_def advect_def byteAt_def byteVal_def
        getSpeedFactor_def getTrailLength_def xToLng_def yToLat_def
        needsReset_def Let_def)

text \<open>
  C3 as stated fails. The particle is advected twice at trail length 15 and has three
  trail points when it reaches the invalid pixel \<open>(1, 1)\<close>; the trail length prop then
  drops to 2, the particle coasts, and its trail keeps three points.
\<close>

theorem trail_length_counterexample:
  "getTrailLength (pr_zoom (trailProps 2)) (pr_trailLength (trailProps 2)) = 2
   \<and> map (\<lambda>p. length (p_trail p))
        (particles (runTicks [trailProps 15, trailProps 15, trailProps 2] trailDraws
                      (initParticles (trailProps 15) trailDraws emptyState)))
      = [3]"
proof -
  have a: "getTrailLength (pr_zoom (trailProps 2)) (pr_trailLength (trailProps 2)) = 2"
    by (simp add: getTrailLength_def)
  have b: "map (\<lambda>p. length (p_trail p))
        (particles (runTicks [trailProps 15, trailProps 15, trailProps 2] trailDraws
                      (initParticles (trailProps 15) trailDraws emptyState))) = [3]"
    by (simp only: runTicks.simps initParticles_trail tick1_trail tick2_trail tick3_trail) simp
  from a b show ?thesis by (simp only: simp_thms)
qed

lemma slice0_length:
  assumes "0 \<le> L"
  shows "real (length (slice0 xs L)) \<le> L"
proof -
  have fl: "0 \<le> \<lfloor>L\<rfloor>" using assms by simp
  have "length (slice0 xs L) = min (nat (min \<lfloor>L\<rfloor> (int (length xs)))) (length xs)"
    using assms fl by (simp add: slice0_def toIntegerOrInfinity_def Let_def)
  also have "\<dots> \<le> nat \<lfloor>L\<rfloor>" by simp
  finally have "real (length (slice0 xs L)) \<le> real (nat \<lfloor>L\<rfloor>)" by simp
  also have "\<dots> = of_int \<lfloor>L\<rfloor>" using fl by simp
  also have "\<dots> \<le> L" by (rule of_int_floor_le)
  finally show ?thesis .
qed

lemma advect_valid_trail:
  assumes v: "validSample wd (p_x p) (p_y p)" and L: "0 \<le> L"
  shows "real (length (p_trail (advect wd sf L p))) \<le> L"
proof -
  let ?px = "\<lfloor>p_x p\<rfloor>" and ?py = "\<lfloor>p_y p\<rfloor>"
  let ?idx = "(?py * width wd + ?px) * 4"
  from v have rng: "?px \<ge> 0 \<and> ?px < width wd \<and> ?py \<ge> 0 \<and> ?py < height wd"
    by (simp add: validSample_def Let_def)
  from v obtain av where av: "byteAt (data wd) (?idx + 3) = Some av" and pos: "byteVal av > 0"
    by (auto simp: validSample_def Let_def split: option.splits)
  have "0 \<le> width wd" using rng by linarith
  with rng have "0 \<le> ?py * width wd" by simp
  with rng have i0: "0 \<le> ?idx" by simp
  from byteAt_before [OF av i0] obtain rv gv
    where r: "byteAt (data wd) ?idx = Some rv" and g: "byteAt (data wd) (?idx + 1) = Some gv"
    by blast
  define tr where "tr = (xToLng (bounds wd) (width wd) (p_x p + (byteVal rv / 255 * 100 - 50) * sf),
                         yToLat (bounds wd) (height wd) (p_y p - (byteVal gv / 255 * 100 - 50) * sf))
                        # p_trail p"
  have "p_trail (advect wd sf L p) = (if real (length tr) > L then slice0 tr L else tr)"
    using rng av pos r g by (simp add: advect_def Let_def tr_def)
  then show ?thesis using slice0_length [OF L, of tr] by simp
qed

lemma updateParticle_trail:
  assumes L: "1 \<le> L"
  shows "real (length (p_trail (fst (updateParticle wd sf L mA rnd p k))))
           \<le> max L (real (length (p_trail p)))
       \<and> (validSample wd (p_x p) (p_y p) \<or> real (length (p_trail p)) \<le> L \<longrightarrow>
            real (length (p_trail (fst (updateParticle wd sf L mA rnd p k)))) \<le> L)"
proof (cases "validSample wd (p_x p) (p_y p)")
  case True
  have "0 \<le> L" using L by simp
  with True have a: "real (length (p_trail (advect wd sf L p))) \<le> L" by (rule advect_valid_trail)
  have "real (length (p_trail (fst (updateParticle wd sf L mA rnd p k)))) \<le> L"
    using a L by (simp add: updateParticle_def Let_def respawn_trail)
  then show ?thesis by simp
next
  case False
  have "length (p_trail (fst (updateParticle wd sf L mA rnd p k))) = 1
      \<or> p_trail (fst (updateParticle wd sf L mA rnd p k)) = p_trail p"
    unfolding updateParticle_invalid [OF False] by (simp add: respawn_trail)
  then show ?thesis using L False by auto
qed

text \<open>
  C3, as amended. After a tick of the mounted component with a trail length \<open>L \<ge> 1\<close>,
  the trail of every particle has at most \<open>max L n\<close> points, where \<open>n\<close> is its length before
  the tick, and at most \<open>L\<close> points if the particle's sample was valid or its trail had
  at most \<open>L\<close> points before. A trail is trimmed only when it is extended.
\<close>

theorem trail_length_after_tick:
  assumes "pr_windData props = Some wd" and "pr_mapBounds props = Some mb"
    and "1 \<le> getTrailLength (pr_zoom props) (pr_trailLength props)"
  shows "list_all2
           (\<lambda>p p'. real (length (p_trail p'))
                      \<le> max (getTrailLength (pr_zoom props) (pr_trailLength props))
                            (real (length (p_trail p)))
                  \<and> (validSample wd (p_x p) (p_y p)
                       \<or> real (length (p_trail p)) \<le> getTrailLength (pr_zoom props) (pr_trailLength props)
                     \<longrightarrow> real (length (p_trail p'))
                           \<le> getTrailLength (pr_zoom props) (pr_trailLength props)))
           (particles st) (particles (updateParticles props rnd st))"
  unfolding updateParticles_particles [OF assms(1,2)]
  by (rule forEachParticle_rel) (rule updateParticle_trail [OF assms(3)])

theorem trail_length_after_tick_witness:
  "pr_windData (trailProps 15) = Some trailField
   \<and> pr_mapBounds (trailProps 15) = Some ((2, 2), (0, 0))
   \<and> 1 \<le> getTrailLength (pr_zoom (trailProps 15)) (pr_trailLength (trailProps 15))
   \<and> validSample trailField (1/10) (1/10)
   \<and> map (\<lambda>p. (p_x p, p_y p)) (particles (initParticles (trailProps 15) trailDraws emptyState))
      = [(1/10, 1/10)]
   \<and> list_all (\<lambda>p'. real (length (p_trail p')) \<le> 15)
        (particles (updateParticles (trailProps 15) trailDraws
                      (initParticles (trailProps 15) trailDraws emptyState)))"
proof -
  have h: "pr_windData (trailProps 15) = Some trailField"
    "pr_mapBounds (trailProps 15) = Some ((2, 2), (0, 0))"
    "1 \<le> getTrailLength (pr_zoom (trailProps 15)) (pr_trailLength (trailProps 15))"
    by (simp_all add: getTrailLength_def)
  have v: "validSample trailField (1/10) (1/10)"
    by (simp add: validSample_def byteAt_def byteVal_def)
  have i: "map (\<lambda>p. (p_x p, p_y p)) (particles (initParticles (trailProps 15) trailDraws emptyState))
      = [(1/10, 1/10)]"
    by (subst initParticles_trail) simp
  from trail_length_after_tick [OF h, of "initParticles (trailProps 15) trailDraws emptyState" trailDraws] v
  have c: "list_all (\<lambda>p'. real (length (p_trail p')) \<le> 15)
        (particles (updateParticles (trailProps 15) trailDraws
                      (initParticles (trailProps 15) trailDraws emptyState)))"
    unfolding initParticles_trail
    by (auto simp: list_all2_Cons1 getTrailLength_def)
  from h v i c show ?thesis by (simp only: simp_thms)
qed

section \<open>Positions after a tick\<close>

lemma deck_simps [simp]:
  "dk_windData deckProps = Some deckField" "dk_speedFactor deckProps = 0.08"
  "dk_trailLength deckProps = 15" "dk_maxAge deckProps = 80"
  "dk_viewBounds deckProps = Some europeView" "dk_zoom deckProps = 5"
  "width deckField = 2" "height deckField = 2"
  "data deckField = [0, 0, 0, 0,  0, 0, 0, 0,  0, 0, 0, 0,  0, 0, 0, 0]"
  "bounds deckField = HRRR_BOUNDS"
  by (simp_all add: deckProps_def deckField_def)

lemma HRRR_simps:
  "west HRRR_BOUNDS = - 134.1" "east HRRR_BOUNDS = - 60.9"
  "south HRRR_BOUNDS = 21.1" "north HRRR_BOUNDS = 52.6"
  by (simp_all add: HRRR_BOUNDS_def)

lemma deck_spawnBounds_europe:
  "deck_spawnBounds HRRR_BOUNDS (Some europeView) 5 =
     \<lparr> west = 0, east = - 60.9, south = 45, north = 50 \<rparr>"
  by (simp add: deck_spawnBounds_def HRRR_BOUNDS_def europeView_def)

lemma deck_tick1:
  "deck_updateParticles deckProps halfDraws deckStart =
     \<lparr> d_particles = [\<lparr> d_id = 0, d_x = 691/244, d_y = 34/105, d_age = 0, d_maxAge = 80,
                        d_trail = [(- 30.45, 47.5, 0)] \<rparr>],
       d_draws = 3 \<rparr>"
  by (simp add: deck_updateParticles_def deck_updateParticle_def deck_advect_def byteAt_def byteVal_def
        deck_needsReset_def deck_respawn_def deck_spawnBounds_europe lngToX_def latToY_def
        halfDraws_def deckStart_def Let_def HRRR_simps)

lemma deck_tick2:
  "deck_updateParticles deckProps halfDraws
     \<lparr> d_particles = [\<lparr> d_id = 0, d_x = 691/244, d_y = 34/105, d_age = 0, d_maxAge = 80,
                        d_trail = [(- 30.45, 47.5, 0)] \<rparr>],
       d_draws = 3 \<rparr> =
     \<lparr> d_particles = [\<lparr> d_id = 0, d_x = 691/244, d_y = 34/105, d_age = 0, d_maxAge = 80,
                        d_trail = [(- 30.45, 47.5, 0)] \<rparr>],
       d_draws = 6 \<rparr>"
  by (simp add: deck_updateParticles_def deck_updateParticle_def deck_advect_def byteAt_def byteVal_def
        deck_needsReset_def deck_respawn_def deck_spawnBounds_europe lngToX_def latToY_def
        halfDraws_def Let_def HRRR_simps)

text \<open>
  What a tick of the Skia component does guarantee, for positive dimensions, proper
  bounds and draws in \<open>[0, 1)\<close>: \<open>x\<close> ends in \<open>[0, width)\<close> and \<open>y\<close> in \<open>[0, height]\<close>. The
  upper end \<open>y = height\<close> is reached only by a respawn whose latitude draw is exactly 0,
  because \<open>y\<close> is \<open>(1 - draw) * height\<close>.
\<close>

lemma skia_tick_position_bounds:
  assumes dims: "0 < width wd" "0 < height wd"
    and b: "west (bounds wd) < east (bounds wd)" "south (bounds wd) < north (bounds wd)"
    and u: "unitDraws rnd"
  shows "0 \<le> p_x (fst (updateParticle wd sf L mA rnd p k))
       \<and> p_x (fst (updateParticle wd sf L mA rnd p k)) < of_int (width wd)
       \<and> 0 \<le> p_y (fst (updateParticle wd sf L mA rnd p k))
       \<and> p_y (fst (updateParticle wd sf L mA rnd p k)) \<le> of_int (height wd)
       \<and> (0 < rnd (k + 1) \<longrightarrow> p_y (fst (updateParticle wd sf L mA rnd p k)) < of_int (height wd))"
proof -
  define q where "q = (advect wd sf L p)\<lparr> p_age := p_age (advect wd sf L p) + 1 \<rparr>"
  have upd: "updateParticle wd sf L mA rnd p k =
      (if needsReset wd q then (respawn wd mA rnd k q, k + 3) else (q, k))"
    by (simp add: updateParticle_def q_def Let_def)
  show ?thesis
  proof (cases "needsReset wd q")
    case True
    have r0: "0 \<le> rnd k" "rnd k < 1" "0 \<le> rnd (k + 1)" "rnd (k + 1) < 1"
      using u by (simp_all add: unitDraws_def)
    have w: "0 < (of_int (width wd) :: real)" and h: "0 < (of_int (height wd) :: real)"
      using dims by simp_all
    have x0: "0 \<le> rnd k * of_int (width wd)" using r0(1) w by simp
    have x1: "rnd k * of_int (width wd) < of_int (width wd)" using r0(2) w by simp
    have y0: "0 \<le> (1 - rnd (k + 1)) * of_int (height wd)" using r0(4) h by simp
    have y1: "(1 - rnd (k + 1)) * of_int (height wd) \<le> of_int (height wd)"
      using r0(3) h by (simp add: mult_left_le_one_le)
    have y2: "(1 - rnd (k + 1)) * of_int (height wd) < of_int (height wd)" if "0 < rnd (k + 1)"
      using that h by simp
    show ?thesis
      unfolding upd using True x0 x1 y0 y1 y2
      by (simp only: if_True fst_conv respawn_position [OF b]) blast
  next
    case False
    then show ?thesis unfolding upd by (simp add: needsReset_def)
  qed
qed

text \<open>
  In the deck.gl layer a view that lies east of the data, at a zoom above 4, makes the
  "intersection" of lines 512-517 an interval from the view's west down to the data's
  east, and every respawn lands at or beyond the right edge of the grid.
\<close>

lemma deck_respawn_disjoint_view:
  assumes dims: "0 < width wd"
    and b: "west (bounds wd) < east (bounds wd)"
    and v: "east (bounds wd) \<le> west vb" "west vb \<le> east vb"
    and z: "4 < zoom"
    and u: "unitDraws rnd"
  shows "of_int (width wd) \<le> d_x (deck_respawn wd mA (Some vb) zoom rnd k p)"
proof -
  let ?W = "west (bounds wd)" and ?E = "east (bounds wd)"
  have sb: "west (deck_spawnBounds (bounds wd) (Some vb) zoom) = west vb"
    "east (deck_spawnBounds (bounds wd) (Some vb) zoom) = ?E"
    using z b v by (simp_all add: deck_spawnBounds_def)
  define lng where "lng = west vb + rnd k * (?E - west vb)"
  have r: "0 \<le> rnd k" "rnd k < 1" using u by (simp_all add: unitDraws_def)
  have "rnd k * (west vb - ?E) \<le> 1 * (west vb - ?E)"
    using r v(1) by (intro mult_right_mono) simp_all
  then have lng_ge: "?E \<le> lng" by (simp add: lng_def algebra_simps)
  have pos: "0 < ?E - ?W" using b by simp
  have "1 \<le> (lng - ?W) / (?E - ?W)" using lng_ge pos by (simp add: field_simps)
  moreover have "0 \<le> (of_int (width wd) :: real)" using dims by simp
  ultimately have "1 * of_int (width wd) \<le> (lng - ?W) / (?E - ?W) * of_int (width wd)"
    by (rule mult_right_mono)
  moreover have "d_x (deck_respawn wd mA (Some vb) zoom rnd k p) = (lng - ?W) / (?E - ?W) * of_int (width wd)"
    by (simp add: deck_respawn_def lngToX_def Let_def sb lng_def)
  ultimately show ?thesis by simp
qed

lemma initParticles_edge:
  "initParticles blankProps edgeDraws emptyState =
     \<lparr> particles = [\<lparr> p_id = 0, p_x = 1/4, p_y = 3/4, p_lng = 1/4, p_lat = 1/4,
                      p_age = 20, p_maxAge = 72, p_trail = [(1/4, 1/4)] \<rparr>],
       draws = 4 \<rparr>"
  by (simp add: initParticles_def emptyState_def getParticleCount_def initLoop.simps
        lngToX_def latToY_def edgeDraws_def Let_def)

lemma respawn_tick_edge:
  "updateParticles blankProps edgeDraws
     \<lparr> particles = [\<lparr> p_id = 0, p_x = 1/4, p_y = 3/4, p_lng = 1/4, p_lat = 1/4,
                      p_age = 72, p_maxAge = 72, p_trail = [(1/4, 1/4)] \<rparr>],
       draws = 4 \<rparr> =
     \<lparr> particles = [\<lparr> p_id = 0, p_x = 1/2, p_y = 1, p_lng = 1/2, p_lat = 0,
                      p_age = 0, p_maxAge = 80, p_trail = [(1/2, 0)] \<rparr>],
       draws = 7 \<rparr>"
  by (simp add: updateParticles_def updateParticle_def advect_def byteAt_def byteVal_def
        needsReset_def respawn_def lngToX_def latToY_def edgeDraws_def Let_def)

lemma skia_respawn_on_edge:
  "(updateParticles blankProps edgeDraws ^^ 53) (initParticles blankProps edgeDraws emptyState) =
     \<lparr> particles = [\<lparr> p_id = 0, p_x = 1/2, p_y = 1, p_lng = 1/2, p_lat = 0,
                      p_age = 0, p_maxAge = 80, p_trail = [(1/2, 0)] \<rparr>],
       draws = 7 \<rparr>"
proof -
  let ?f = "updateParticles blankProps edgeDraws"
  have split: "?f ^^ 53 = ?f \<circ> (?f ^^ 52)"
  proof -
    have "(53 :: nat) = Suc 52" by simp
    then have "?f ^^ 53 = ?f ^^ Suc 52" by (rule arg_cong)
    then show ?thesis by (simp only: funpow.simps)
  qed
  have a: "(?f ^^ 52) (initParticles blankProps edgeDraws emptyState) =
      \<lparr> particles = [\<lparr> p_id = 0, p_x = 1/4, p_y = 3/4, p_lng = 1/4, p_lat = 1/4,
                      p_age = 72, p_maxAge = 72, p_trail = [(1/4, 1/4)] \<rparr>], draws = 4 \<rparr>"
    unfolding initParticles_edge
    by (subst coast_eq [where wd = blankField and mb = "((1, 1), (0, 0))"])
       (simp_all add: inGrid_def)
  show ?thesis by (simp only: split o_apply a respawn_tick_edge)
qed

text \<open>
  C2 fails on the code. In the deck.gl layer, with the map over Europe at zoom 5, a
  particle inside the grid that reaches its maximum age is respawned at \<open>x = 691/244\<close>,
  beyond the width 2, and the next tick respawns it there again. In the Skia component
  a respawn whose latitude draw is 0 puts the particle at \<open>y = height\<close>.
\<close>

theorem respawn_outside_grid:
  "map (\<lambda>p. inGrid deckField (d_x p) (d_y p)) (d_particles deckStart) = [True]
   \<and> map (\<lambda>p. (d_x p, d_y p, inGrid deckField (d_x p) (d_y p)))
        (d_particles (deck_updateParticles deckProps halfDraws deckStart))
      = [(691/244, 34/105, False)]
   \<and> map (\<lambda>p. (d_x p, d_y p, inGrid deckField (d_x p) (d_y p)))
        (d_particles (deck_updateParticles deckProps halfDraws
                        (deck_updateParticles deckProps halfDraws deckStart)))
      = [(691/244, 34/105, False)]
   \<and> map (\<lambda>p. (p_x p, p_y p, inGrid blankField (p_x p) (p_y p)))
        (particles ((updateParticles blankProps edgeDraws ^^ 53)
                      (initParticles blankProps edgeDraws emptyState)))
      = [(1/2, 1, False)]"
proof -
  have a: "map (\<lambda>p. inGrid deckField (d_x p) (d_y p)) (d_particles deckStart) = [True]"
    by (simp add: deckStart_def inGrid_def)
  have b: "map (\<lambda>p. (d_x p, d_y p, inGrid deckField (d_x p) (d_y p)))
        (d_particles (deck_updateParticles deckProps halfDraws deckStart))
      = [(691/244, 34/105, False)]"
    by (subst deck_tick1) (simp add: inGrid_def)
  have c: "map (\<lambda>p. (d_x p, d_y p, inGrid deckField (d_x p) (d_y p)))
        (d_particles (deck_updateParticles deckProps halfDraws
                        (deck_updateParticles deckProps halfDraws deckStart)))
      = [(691/244, 34/105, False)]"
    by (simp only: deck_tick1 deck_tick2) (simp add: inGrid_def)
  have d: "map (\<lambda>p. (p_x p, p_y p, inGrid blankField (p_x p) (p_y p)))
        (particles ((updateParticles blankProps edgeDraws ^^ 53)
                      (initParticles blankProps edgeDraws emptyState)))
      = [(1/2, 1, False)]"
    by (subst skia_respawn_on_edge) (simp add: inGrid_def)
  from a b c d show ?thesis by (simp only: simp_thms)
qed

section \<open>Coasting in both components\<close>












section \<open>Rounding: error bounds and evaluation\<close>

lemma f64_eps_val: "f64_eps = 1 / 2 ^ 53"
proof -
  have "(2::real) powr (- 53) = inverse (2 powr 53)" by (rule powr_minus)
  also have "(2::real) powr 53 = 2 ^ 53" by simp
  finally show ?thesis by (simp only: f64_eps_def inverse_eq_divide)
qed

lemma f64_tiny_eq: "f64_tiny = f64_eps * f64_minNormal"
proof -
  have "(- 1075 :: real) = - 53 + - 1022" by simp
  then have "(2::real) powr (- 1075) = 2 powr (- 53 + - 1022)" by (rule arg_cong)
  also have "\<dots> = 2 powr (- 53) * 2 powr (- 1022)" by (rule powr_add)
  finally show ?thesis by (simp only: f64_tiny_def f64_eps_def f64_minNormal_def)
qed

lemma f64_minNormal_pos: "0 < f64_minNormal"
  by (simp add: f64_minNormal_def)

lemma f64_minNormal_le_1: "f64_minNormal \<le> 1"
proof -
  have "(2::real) powr (- 1022) \<le> 2 powr 0" by (rule powr_mono) simp_all
  then show ?thesis by (simp add: f64_minNormal_def)
qed

lemma f64_tiny_bounds: "0 < f64_tiny" "f64_tiny \<le> f64_eps"
proof -
  show "0 < f64_tiny" by (simp add: f64_tiny_def)
  have "f64_eps * f64_minNormal \<le> f64_eps * 1"
    by (rule mult_left_mono) (simp_all add: f64_minNormal_le_1 f64_eps_def)
  then show "f64_tiny \<le> f64_eps" by (simp add: f64_tiny_eq)
qed

lemma roundEven_err: "\<bar>of_int (roundEven r) - r\<bar> \<le> 1/2"
proof -
  have "of_int \<lfloor>r\<rfloor> \<le> r" "r < of_int \<lfloor>r\<rfloor> + 1" by linarith+
  then show ?thesis by (auto simp: roundEven_def Let_def)
qed

lemma roundEven_nonneg: "0 \<le> r \<Longrightarrow> 0 \<le> roundEven r"
  by (auto simp: roundEven_def Let_def)

lemma roundEven_of_int [simp]: "roundEven (of_int k) = k"
  by (simp add: roundEven_def)

lemma fl_0 [simp]: "fl 0 = 0"
  by (simp add: fl_def)

lemma fl_nonneg: "0 \<le> v \<Longrightarrow> 0 \<le> fl v"
  by (simp add: fl_def roundEven_nonneg)

lemma fl_half_ulp: "\<bar>fl v - v\<bar> \<le> 2 powr of_int (ulpExp v) / 2"
proof (cases "v = 0")
  case True
  then show ?thesis by simp
next
  case False
  define u :: real where "u = 2 powr of_int (ulpExp v)"
  have u: "0 < u" by (simp add: u_def)
  have "fl v - v = (of_int (roundEven (v / u)) - v / u) * u"
    using u False by (simp add: fl_def u_def field_simps)
  then have "\<bar>fl v - v\<bar> = \<bar>of_int (roundEven (v / u)) - v / u\<bar> * u"
    using u by (simp add: abs_mult)
  also have "\<dots> \<le> 1/2 * u"
    using roundEven_err [of "v / u"] u by (intro mult_right_mono) simp_all
  finally show ?thesis by (simp add: u_def)
qed

lemma binade_lower: "v \<noteq> 0 \<Longrightarrow> 2 powr of_int \<lfloor>log 2 \<bar>v\<bar>\<rfloor> \<le> \<bar>v\<bar>"
  using floor_log_eq_powr_iff [of "\<bar>v\<bar>" 2 "\<lfloor>log 2 \<bar>v\<bar>\<rfloor>"] by simp

lemma fl_err_normal:
  assumes "f64_minNormal \<le> \<bar>v\<bar>"
  shows "\<bar>fl v - v\<bar> \<le> \<bar>v\<bar> * f64_eps"
proof -
  have v0: "v \<noteq> 0" using assms f64_minNormal_pos by auto
  have "2 powr (- 1022) \<le> \<bar>v\<bar>" using assms by (simp only: f64_minNormal_def)
  then have "(- 1022 :: real) \<le> log 2 \<bar>v\<bar>" using v0 by (simp only: le_log_iff)
  then have "of_int (- 1022) \<le> log 2 \<bar>v\<bar>" by simp
  then have "- 1022 \<le> \<lfloor>log 2 \<bar>v\<bar>\<rfloor>" by (simp only: le_floor_iff)
  then have e: "ulpExp v = \<lfloor>log 2 \<bar>v\<bar>\<rfloor> - 52" by (simp add: ulpExp_def)
  have "real_of_int (\<lfloor>log 2 \<bar>v\<bar>\<rfloor> - 52) - 1 = of_int \<lfloor>log 2 \<bar>v\<bar>\<rfloor> + - 53" by simp
  then have "(2::real) powr (real_of_int (\<lfloor>log 2 \<bar>v\<bar>\<rfloor> - 52) - 1) = 2 powr (of_int \<lfloor>log 2 \<bar>v\<bar>\<rfloor> + - 53)"
    by (rule arg_cong)
  moreover have "(2::real) powr (real_of_int (\<lfloor>log 2 \<bar>v\<bar>\<rfloor> - 52) - 1) = 2 powr real_of_int (\<lfloor>log 2 \<bar>v\<bar>\<rfloor> - 52) / 2"
    by (simp only: powr_diff powr_one)
  ultimately have "(2::real) powr of_int (ulpExp v) / 2 = 2 powr (of_int \<lfloor>log 2 \<bar>v\<bar>\<rfloor> + - 53)"
    unfolding e by simp
  also have "\<dots> = 2 powr of_int \<lfloor>log 2 \<bar>v\<bar>\<rfloor> * f64_eps"
    by (simp only: powr_add f64_eps_def)
  also have "\<dots> \<le> \<bar>v\<bar> * f64_eps"
    using binade_lower [OF v0] by (intro mult_right_mono) (simp_all add: f64_eps_def)
  finally show ?thesis using fl_half_ulp [of v] by linarith
qed

lemma fl_err: "\<bar>fl v - v\<bar> \<le> \<bar>v\<bar> * f64_eps + f64_tiny"
proof (cases "f64_minNormal \<le> \<bar>v\<bar>")
  case True
  from fl_err_normal [OF True] f64_tiny_bounds(1) show ?thesis by linarith
next
  case False
  show ?thesis
  proof (cases "v = 0")
    case True then show ?thesis using f64_tiny_bounds(1) by simp
  next
    case v0: False
    from False have "\<bar>v\<bar> < 2 powr (- 1022)" by (simp only: f64_minNormal_def not_le)
    then have "log 2 \<bar>v\<bar> < (- 1022 :: real)" using v0 by (simp only: log_less_iff)
    then have "log 2 \<bar>v\<bar> < of_int (- 1022)" by simp
    then have "\<lfloor>log 2 \<bar>v\<bar>\<rfloor> < - 1022" by (simp only: floor_less_iff)
    then have e: "ulpExp v = - 1074" by (simp add: ulpExp_def)
    have "(- 1075 :: real) = - 1074 - 1" by simp
    then have "(2::real) powr (- 1075) = 2 powr (- 1074 - 1)" by (rule arg_cong)
    also have "\<dots> = 2 powr (- 1074) / 2 powr 1" by (rule powr_diff)
    also have "\<dots> = 2 powr (- 1074) / 2" by (simp only: powr_one)
    finally have t: "f64_tiny = 2 powr (- 1074) / 2" by (simp only: f64_tiny_def)
    have "real_of_int (- 1074) = - 1074" by simp
    then have "(2::real) powr of_int (ulpExp v) / 2 = f64_tiny"
      unfolding e t by (simp only:)
    with fl_half_ulp [of v] have "\<bar>fl v - v\<bar> \<le> f64_tiny" by simp
    moreover have "0 \<le> \<bar>v\<bar> * f64_eps" by (simp add: f64_eps_def)
    ultimately show ?thesis by linarith
  qed
qed

lemma ulpExp_eq:
  assumes e: "- 1022 \<le> e" and lo: "2 powr of_int e \<le> \<bar>v\<bar>" and hi: "\<bar>v\<bar> < 2 powr (of_int e + 1)"
  shows "ulpExp v = e - 52"
proof -
  have pos: "0 < \<bar>v\<bar>" using lo by (smt (verit) powr_gt_zero)
  have "\<lfloor>log 2 \<bar>v\<bar>\<rfloor> = e"
    using floor_log_eq_powr_iff [of "\<bar>v\<bar>" 2 e] pos lo hi by simp
  then show ?thesis using e by (simp add: ulpExp_def)
qed

lemma fl_eval:
  assumes e: "- 1022 \<le> e" and u: "u = 2 powr of_int (e - 52)"
    and lo: "2 ^ 52 * u \<le> \<bar>v\<bar>" and hi: "\<bar>v\<bar> < 2 ^ 53 * u"
  shows "fl v = of_int (roundEven (v / u)) * u"
proof -
  have a: "real_of_int e = 52 + real_of_int (e - 52)" by simp
  have "(2::real) powr of_int e = 2 powr 52 * 2 powr of_int (e - 52)"
    by (subst a) (rule powr_add)
  then have p52: "(2::real) powr of_int e = 2 ^ 52 * u" by (simp add: u)
  have b: "real_of_int e + 1 = 53 + real_of_int (e - 52)" by simp
  have "(2::real) powr (of_int e + 1) = 2 powr 53 * 2 powr of_int (e - 52)"
    by (subst b) (rule powr_add)
  then have p53: "(2::real) powr (of_int e + 1) = 2 ^ 53 * u" by (simp add: u)
  have ue: "ulpExp v = e - 52"
    using e lo hi by (intro ulpExp_eq) (simp_all only: p52 p53)
  have upos: "0 < u" by (simp add: u)
  have "v \<noteq> 0" using lo upos by (smt (verit) mult_pos_pos zero_less_power zero_less_numeral)
  then show ?thesis by (simp add: fl_def ue u)
qed

lemma fl_exact:
  assumes e: "- 1022 \<le> e" and u: "u = 2 powr of_int (e - 52)"
    and v: "v = of_int k * u"
    and lo: "2 ^ 52 * u \<le> \<bar>v\<bar>" and hi: "\<bar>v\<bar> < 2 ^ 53 * u"
  shows "fl v = v"
proof -
  have upos: "0 < u" by (simp add: u)
  then have "v / u = of_int k" by (simp add: v)
  then show ?thesis using fl_eval [OF e u lo hi] by (simp add: v)
qed

lemma fl_absorb:
  assumes e: "- 1022 \<le> e" and u: "u = 2 powr of_int (e - 52)"
    and v: "v = of_int k * u"
    and lo: "2 ^ 52 * u \<le> v" and hi: "v + d < 2 ^ 53 * u"
    and d: "0 \<le> d" "d < u / 2"
  shows "fl (v + d) = v"
proof -
  have upos: "0 < u" by (simp add: u)
  have vpos: "0 \<le> v" using lo upos by (smt (verit) mult_nonneg_nonneg zero_le_power zero_le_numeral)
  have lo': "2 ^ 52 * u \<le> \<bar>v + d\<bar>" and hi': "\<bar>v + d\<bar> < 2 ^ 53 * u"
    using lo hi d vpos by simp_all
  have q: "(v + d) / u = of_int k + d / u" using upos by (simp add: v field_simps)
  have f0: "0 \<le> d / u" using d upos by simp
  have f1: "d / u < 1/2" using d upos by (simp add: field_simps)
  have fl_k: "\<lfloor>of_int k + d / u\<rfloor> = k" using f0 f1 by linarith
  have "roundEven ((v + d) / u) = k"
    unfolding q using f1 by (simp add: roundEven_def Let_def fl_k)
  then show ?thesis using fl_eval [OF e u lo' hi'] by (simp add: v)
qed

lemma two_powr_neg: "(2::real) powr (- real n) = 1 / 2 ^ n"
  by (simp add: powr_minus powr_realpow inverse_eq_divide)




lemma fl_1: "fl 1 = 1"
proof (rule fl_exact [where e = 0 and u = "1 / 2 ^ 52" and k = "2 ^ 52"])
  show "1 / 2 ^ 52 = (2::real) powr real_of_int (0 - 52)"
    using two_powr_neg [of 52] by simp
qed simp_all

lemma fl_half: "fl (1/2) = 1/2"
proof (rule fl_exact [where e = "- 1" and u = "1 / 2 ^ 53" and k = "2 ^ 52"])
  show "1 / 2 ^ 53 = (2::real) powr real_of_int (- 1 - 52)"
    using two_powr_neg [of 53] by simp
qed simp_all

lemma fl_2p60: "fl (2 ^ 60) = 2 ^ 60"
  by (rule fl_exact [where e = 60 and u = "2 ^ 8" and k = "2 ^ 52"]) simp_all

lemma fl_2p61: "fl (2 ^ 61) = 2 ^ 61"
  by (rule fl_exact [where e = 61 and u = "2 ^ 9" and k = "2 ^ 52"]) simp_all

lemma fl_2p60_plus_1: "fl (2 ^ 60 + 1) = 2 ^ 60"
  by (rule fl_absorb [where e = 60 and u = "2 ^ 8" and k = "2 ^ 52"]) simp_all



section \<open>The decoder in double arithmetic\<close>

lemma f64_eps_small: "0 < f64_eps" "f64_eps \<le> 1 / 1000"
  by (simp_all add: f64_eps_val)

lemma fl_err_le:
  assumes "\<bar>v\<bar> \<le> K"
  shows "\<bar>fl v - v\<bar> \<le> K * f64_eps + f64_eps"
proof -
  have "\<bar>v\<bar> * f64_eps \<le> K * f64_eps"
    using assms f64_eps_small(1) by (intro mult_right_mono) simp_all
  with fl_err [of v] f64_tiny_bounds(2) show ?thesis by linarith
qed









section \<open>The projection round trip in double arithmetic\<close>

lemma fl_err_pos:
  assumes "0 \<le> v" "v \<le> K"
  shows "\<bar>fl v - v\<bar> \<le> K * f64_eps + f64_tiny" "0 \<le> fl v"
proof -
  have "\<bar>v\<bar> * f64_eps \<le> K * f64_eps"
    using assms f64_eps_small(1) by (intro mult_right_mono) simp_all
  with fl_err [of v] show "\<bar>fl v - v\<bar> \<le> K * f64_eps + f64_tiny" by linarith
  show "0 \<le> fl v" using assms(1) by (rule fl_nonneg)
qed

lemma round_trip_core:
  assumes A: "0 \<le> A" "A \<le> B" and B: "f64_minNormal \<le> B" and w: "1 \<le> w"
  shows "\<bar>fl (fl (fl (fl (fl A / fl B) * w) / w) * fl B) - A\<bar> \<le> 31 * B * f64_eps + f64_tiny"
proof -
  define E where "E = f64_eps"
  define T where "T = f64_tiny"
  have E: "0 < E" "E \<le> 1 / 1000" using f64_eps_small by (simp_all add: E_def)
  have T: "0 < T" "T \<le> E" using f64_tiny_bounds by (simp_all add: T_def E_def)
  have Bpos: "0 < B" using B f64_minNormal_pos by linarith
  have TB: "T \<le> B * E"
  proof -
    have "E * f64_minNormal \<le> E * B" using B E(1) by (intro mult_left_mono) simp_all
    then show ?thesis by (simp add: T_def E_def f64_tiny_eq mult.commute)
  qed
  define r where "r = A / B"
  have r: "0 \<le> r" "r \<le> 1" and rB: "B * r = A"
    using A Bpos by (simp_all add: r_def)
  define t1 where "t1 = fl A"
  define t2 where "t2 = fl B"
  define q where "q = t1 / t2"
  define t3 where "t3 = fl q"
  define x where "x = fl (t3 * w)"
  define p5 where "p5 = x / w"
  define t4 where "t4 = fl p5"
  define p7 where "p7 = t4 * t2"
  define t6 where "t6 = fl p7"
  \<comment> \<open>the two operands\<close>
  have s1: "\<bar>t1 - A\<bar> \<le> A * E + T" and t1_0: "0 \<le> t1"
    using fl_err_pos [of A A] A(1) by (simp_all add: t1_def E_def T_def)
  have "\<bar>fl B - B\<bar> \<le> \<bar>B\<bar> * f64_eps" using B Bpos by (intro fl_err_normal) simp
  then have s2: "\<bar>t2 - B\<bar> \<le> B * E" using Bpos by (simp add: t2_def E_def)
  have BE: "B * E \<le> B / 1000" using E(2) Bpos by (simp add: field_simps)
  have t2_lo: "3 / 4 * B \<le> t2" and t2_hi: "t2 \<le> 2 * B" and t2_pos: "0 < t2"
    using s2 BE Bpos by linarith+
  \<comment> \<open>the quotient\<close>
  have AE: "A * E \<le> B * E" using A(2) E(1) by (intro mult_right_mono) simp_all
  have rBE: "r * (B * E) \<le> 1 * (B * E)" using r(2) Bpos E(1) by (intro mult_right_mono) simp_all
  have "t1 - r * t2 = (t1 - A) + r * (B - t2)" by (simp add: algebra_simps rB)
  moreover have "\<bar>r * (B - t2)\<bar> \<le> r * (B * E)"
  proof -
    have "\<bar>r * (B - t2)\<bar> = r * \<bar>B - t2\<bar>" using r(1) by (simp add: abs_mult)
    also have "\<dots> \<le> r * (B * E)" using s2 r(1) by (intro mult_left_mono) simp_all
    finally show ?thesis .
  qed
  ultimately have num: "\<bar>t1 - r * t2\<bar> \<le> 3 * (B * E)"
    using s1 AE TB rBE by linarith
  have eq3: "(q - r) * t2 = t1 - r * t2" using t2_pos by (simp add: q_def field_simps)
  have "\<bar>q - r\<bar> * t2 = \<bar>(q - r) * t2\<bar>" using t2_pos by (simp add: abs_mult)
  also have "\<dots> = \<bar>t1 - r * t2\<bar>" by (simp only: eq3)
  also have "\<dots> \<le> 3 * (B * E)" by (rule num)
  also have "\<dots> \<le> (4 * E) * t2"
  proof -
    have "E * (3 / 4 * B) \<le> E * t2" using t2_lo E(1) by (intro mult_left_mono) simp_all
    then show ?thesis by (simp add: algebra_simps)
  qed
  finally have s3: "\<bar>q - r\<bar> \<le> 4 * E" using t2_pos by simp
  have q0: "0 \<le> q" using t1_0 t2_pos by (simp add: q_def)
  have q2: "q \<le> 2" using s3 r E by linarith
  \<comment> \<open>rounding the quotient\<close>
  have s4: "\<bar>t3 - q\<bar> \<le> 2 * E + T" and t3_0: "0 \<le> t3"
    using fl_err_pos [OF q0 q2] by (simp_all add: t3_def E_def T_def)
  have t3_r: "\<bar>t3 - r\<bar> \<le> 7 * E" using s3 s4 T by linarith
  have t3_2: "t3 \<le> 2" using t3_r r E by linarith
  \<comment> \<open>to pixels and back\<close>
  have w0: "0 < w" using w by simp
  have tw0: "0 \<le> t3 * w" using t3_0 w0 by simp
  have s5: "\<bar>x - t3 * w\<bar> \<le> (t3 * w) * E + T" and x0: "0 \<le> x"
    using fl_err_pos [OF tw0, of "t3 * w"] by (simp_all add: x_def E_def T_def)
  have eq5: "(p5 - t3) * w = x - t3 * w" using w0 by (simp add: p5_def field_simps)
  have "\<bar>p5 - t3\<bar> * w = \<bar>(p5 - t3) * w\<bar>" using w0 by (simp add: abs_mult)
  also have "\<dots> = \<bar>x - t3 * w\<bar>" by (simp only: eq5)
  also have "\<dots> \<le> (t3 * w) * E + T" by (rule s5)
  also have "\<dots> \<le> (3 * E) * w"
  proof -
    have a: "t3 * E \<le> 2 * E" using t3_2 E(1) by (intro mult_right_mono) simp_all
    have c: "0 \<le> w" using w0 by simp
    from a c have "(t3 * E) * w \<le> (2 * E) * w" by (rule mult_right_mono)
    moreover have "T \<le> E * w"
    proof -
      have "E * 1 \<le> E * w" using w E(1) by (intro mult_left_mono) simp_all
      with T(2) show ?thesis by simp
    qed
    ultimately show ?thesis by (simp add: algebra_simps)
  qed
  finally have s5': "\<bar>p5 - t3\<bar> \<le> 3 * E" using w0 by simp
  have p5_0: "0 \<le> p5" using x0 w0 by (simp add: p5_def)
  have p5_2: "p5 \<le> 2" using s5' t3_r r E by linarith
  have s6: "\<bar>t4 - p5\<bar> \<le> 2 * E + T" and t4_0: "0 \<le> t4"
    using fl_err_pos [OF p5_0 p5_2] by (simp_all add: t4_def E_def T_def)
  have t4_r: "\<bar>t4 - r\<bar> \<le> 13 * E" using s6 s5' t3_r T by linarith
  have t4_2: "t4 \<le> 2" using t4_r r E by linarith
  \<comment> \<open>back to degrees\<close>
  have "p7 - A = (t4 - r) * t2 + r * (t2 - B)" by (simp add: p7_def algebra_simps rB)
  moreover have "\<bar>(t4 - r) * t2\<bar> \<le> (13 * E) * (2 * B)"
  proof -
    have "\<bar>(t4 - r) * t2\<bar> = \<bar>t4 - r\<bar> * t2" using t2_pos by (simp add: abs_mult)
    also have "\<dots> \<le> (13 * E) * (2 * B)"
      using t4_r t2_hi t2_pos E(1) by (intro mult_mono) simp_all
    finally show ?thesis .
  qed
  moreover have "\<bar>r * (t2 - B)\<bar> \<le> B * E"
  proof -
    have "\<bar>r * (t2 - B)\<bar> = r * \<bar>t2 - B\<bar>" using r(1) by (simp add: abs_mult)
    also have "\<dots> \<le> 1 * (B * E)" using s2 r by (intro mult_mono) simp_all
    finally show ?thesis by simp
  qed
  ultimately have s7: "\<bar>p7 - A\<bar> \<le> 27 * (B * E)" by (simp add: algebra_simps)
  have p7_0: "0 \<le> p7" using t4_0 t2_pos by (simp add: p7_def)
  have p7_hi: "p7 \<le> 4 * B"
  proof -
    have "t4 * t2 \<le> 2 * (2 * B)" using t4_2 t2_hi t4_0 t2_pos by (intro mult_mono) simp_all
    then show ?thesis by (simp add: p7_def)
  qed
  have s8: "\<bar>t6 - p7\<bar> \<le> (4 * B) * E + T"
    using fl_err_pos(1) [OF p7_0 p7_hi] by (simp add: t6_def E_def T_def)
  have "\<bar>t6 - A\<bar> \<le> 31 * B * E + T" using s7 s8 by (simp add: algebra_simps)
  then show ?thesis
    by (simp only: t6_def p7_def t4_def p5_def x_def t3_def q_def t1_def t2_def E_def T_def)
qed

lemma f64_round_trip_lng:
  assumes span: "f64_minNormal \<le> east b - west b"
    and mag: "\<bar>west b\<bar> \<le> 360" "\<bar>east b\<bar> \<le> 360"
    and w: "0 < w"
    and lng: "west b \<le> lng" "lng \<le> east b"
  shows "\<bar>f64_xToLng b w (f64_lngToX b w lng) - lng\<bar> \<le> 22683 * f64_eps"
proof -
  define A where "A = lng - west b"
  define B where "B = east b - west b"
  define t6 where "t6 = fl (fl (fl (fl (fl A / fl B) * of_int w) / of_int w) * fl B)"
  have E: "0 < f64_eps" using f64_eps_small(1) .
  have A: "0 \<le> A" "A \<le> B" using lng by (simp_all add: A_def B_def)
  have B: "f64_minNormal \<le> B" "B \<le> 720" using span mag by (simp_all add: B_def)
  have w1: "1 \<le> (of_int w :: real)" using w by simp
  have core: "\<bar>t6 - A\<bar> \<le> 31 * B * f64_eps + f64_tiny"
    unfolding t6_def using A B(1) w1 by (rule round_trip_core)
  have "31 * B * f64_eps \<le> 31 * 720 * f64_eps"
    using B(2) E by (intro mult_right_mono) simp_all
  with core f64_tiny_bounds(2) have t6: "\<bar>t6 - A\<bar> \<le> 22321 * f64_eps" by linarith
  have small: "22321 * f64_eps \<le> 1" by (simp add: f64_eps_val)
  have lng360: "\<bar>lng\<bar> \<le> 360" using lng mag by linarith
  have sum: "west b + t6 - lng = t6 - A" by (simp add: A_def)
  have "\<bar>west b + t6\<bar> \<le> 361" using t6 small lng360 sum by linarith
  from fl_err_le [OF this] have last: "\<bar>fl (west b + t6) - (west b + t6)\<bar> \<le> 362 * f64_eps"
    by simp
  have "\<bar>fl (west b + t6) - lng\<bar> \<le> 22683 * f64_eps" using last t6 sum by linarith
  moreover have "f64_xToLng b w (f64_lngToX b w lng) = fl (west b + t6)"
    by (simp only: f64_xToLng_def f64_lngToX_def t6_def A_def B_def)
  ultimately show ?thesis by simp
qed

lemma f64_round_trip_lat:
  assumes span: "f64_minNormal \<le> north b - south b"
    and mag: "\<bar>south b\<bar> \<le> 360" "\<bar>north b\<bar> \<le> 360"
    and h: "0 < h"
    and lat: "south b \<le> lat" "lat \<le> north b"
  shows "\<bar>f64_yToLat b h (f64_latToY b h lat) - lat\<bar> \<le> 22683 * f64_eps"
proof -
  define A where "A = north b - lat"
  define B where "B = north b - south b"
  define t6 where "t6 = fl (fl (fl (fl (fl A / fl B) * of_int h) / of_int h) * fl B)"
  have E: "0 < f64_eps" using f64_eps_small(1) .
  have A: "0 \<le> A" "A \<le> B" using lat by (simp_all add: A_def B_def)
  have B: "f64_minNormal \<le> B" "B \<le> 720" using span mag by (simp_all add: B_def)
  have h1: "1 \<le> (of_int h :: real)" using h by simp
  have core: "\<bar>t6 - A\<bar> \<le> 31 * B * f64_eps + f64_tiny"
    unfolding t6_def using A B(1) h1 by (rule round_trip_core)
  have "31 * B * f64_eps \<le> 31 * 720 * f64_eps"
    using B(2) E by (intro mult_right_mono) simp_all
  with core f64_tiny_bounds(2) have t6: "\<bar>t6 - A\<bar> \<le> 22321 * f64_eps" by linarith
  have small: "22321 * f64_eps \<le> 1" by (simp add: f64_eps_val)
  have lat360: "\<bar>lat\<bar> \<le> 360" using lat mag by linarith
  have sum: "north b - t6 - lat = A - t6" by (simp add: A_def)
  have "\<bar>north b - t6\<bar> \<le> 361" using t6 small lat360 sum by linarith
  from fl_err_le [OF this] have last: "\<bar>fl (north b - t6) - (north b - t6)\<bar> \<le> 362 * f64_eps"
    by simp
  have "\<bar>fl (north b - t6) - lat\<bar> \<le> 22683 * f64_eps" using last t6 sum by linarith
  moreover have "f64_yToLat b h (f64_latToY b h lat) = fl (north b - t6)"
    by (simp only: f64_yToLat_def f64_latToY_def t6_def A_def B_def)
  ultimately show ?thesis by simp
qed

lemma f64_tolerance: "22683 * f64_eps \<le> 1 / 10 ^ 9"
  by (simp add: f64_eps_val)

lemma fl_m2p60: "fl (- (2 ^ 60)) = - (2 ^ 60)"
  by (rule fl_exact [where e = 60 and u = "2 ^ 8" and k = "- (2 ^ 52)"]) simp_all

lemma wide_simps:
  "west wideBounds = - (2 ^ 60)" "east wideBounds = 2 ^ 60"
  by (simp_all add: wideBounds_def)

lemma f64_lngToX_wide: "f64_lngToX wideBounds 1 1 = 1 / 2"
proof -
  have a: "(1 :: real) - - (2 ^ 60) = 2 ^ 60 + 1" by simp
  have b: "(2 :: real) ^ 60 - - (2 ^ 60) = 2 ^ 61" by simp
  have c: "(2 :: real) ^ 60 / 2 ^ 61 = 1 / 2" by simp
  have d: "(1 / 2 :: real) * of_int 1 = 1 / 2" by simp
  show ?thesis
    by (simp only: f64_lngToX_def wide_simps a b fl_2p60_plus_1 fl_2p61 c fl_half d)
qed

lemma f64_xToLng_wide: "f64_xToLng wideBounds 1 (1 / 2) = 0"
proof -
  have a: "(1 / 2 :: real) / of_int 1 = 1 / 2" by simp
  have b: "(2 :: real) ^ 60 - - (2 ^ 60) = 2 ^ 61" by simp
  have c: "(1 / 2 :: real) * 2 ^ 61 = 2 ^ 60" by simp
  have d: "- (2 ^ 60) + (2 :: real) ^ 60 = 0" by simp
  show ?thesis
    by (simp only: f64_xToLng_def wide_simps a b fl_half fl_2p61 c fl_2p60 d fl_0)
qed

lemma f64_round_trip_wide: "f64_xToLng wideBounds 1 (f64_lngToX wideBounds 1 1) = 0"
  by (simp only: f64_lngToX_wide f64_xToLng_wide)


section \<open>Monotonic decoding\<close>






section \<open>The projection round trip\<close>

text \<open>
  With bounds of very large magnitude the round trip loses the position: for
  \<open>west = -2\<^sup>6\<^sup>0\<close>, \<open>east = 2\<^sup>6\<^sup>0\<close> and a width of 1, all doubles, the longitude 1 is mapped to
  the pixel coordinate \<open>1/2\<close> and back to the longitude 0, an error of 1.
\<close>

theorem projection_round_trip_counterexample:
  "west wideBounds < east wideBounds \<and> south wideBounds < north wideBounds
   \<and> fl (west wideBounds) = west wideBounds \<and> fl (east wideBounds) = east wideBounds
   \<and> west wideBounds \<le> 1 \<and> 1 \<le> east wideBounds \<and> fl 1 = 1
   \<and> f64_xToLng wideBounds 1 (f64_lngToX wideBounds 1 1) = 0
   \<and> \<not> \<bar>f64_xToLng wideBounds 1 (f64_lngToX wideBounds 1 1) - 1\<bar> \<le> 1 / 10 ^ 9"
proof -
  have s: "south wideBounds = - 1" "north wideBounds = 1" by (simp_all add: wideBounds_def)
  have we: "west wideBounds < east wideBounds" by (simp add: wide_simps)
  have sn: "south wideBounds < north wideBounds" by (simp add: s)
  have fw: "fl (west wideBounds) = west wideBounds" by (simp only: wide_simps fl_m2p60)
  have fe: "fl (east wideBounds) = east wideBounds" by (simp only: wide_simps fl_2p60)
  have lo: "west wideBounds \<le> 1" and hi: "1 \<le> east wideBounds" by (simp_all add: wide_simps)
  have n: "\<not> \<bar>f64_xToLng wideBounds 1 (f64_lngToX wideBounds 1 1) - 1\<bar> \<le> 1 / 10 ^ 9"
    by (subst f64_round_trip_wide) simp
  show ?thesis using we sn fw fe lo hi fl_1 f64_round_trip_wide n by (simp only: simp_thms)
qed

text \<open>
  C5 (amended). In double arithmetic, for bounds whose four coordinates have magnitude
  at most 360 and whose extents \<open>east - west\<close> and \<open>north - south\<close> are at least the
  smallest normal double, a width and a height between 1 and \<open>2\<^sup>5\<^sup>3\<close>, and a longitude
  and a latitude within the bounds, mapping the longitude to \<open>x\<close> and \<open>x\<close> back, and the
  latitude to \<open>y\<close> and \<open>y\<close> back, reproduces each within \<open>10\<^sup>-\<^sup>9\<close>. In exact arithmetic the
  round trip reproduces both exactly.
\<close>

theorem projection_round_trip:
  assumes "f64_minNormal \<le> east b - west b" and "f64_minNormal \<le> north b - south b"
    and "\<bar>west b\<bar> \<le> 360" and "\<bar>east b\<bar> \<le> 360"
    and "\<bar>south b\<bar> \<le> 360" and "\<bar>north b\<bar> \<le> 360"
    and "0 < w" and "w \<le> 2 ^ 53" and "0 < h" and "h \<le> 2 ^ 53"
    and "west b \<le> lng" and "lng \<le> east b" and "south b \<le> lat" and "lat \<le> north b"
  shows "\<bar>f64_xToLng b w (f64_lngToX b w lng) - lng\<bar> \<le> 1 / 10 ^ 9
       \<and> \<bar>f64_yToLat b h (f64_latToY b h lat) - lat\<bar> \<le> 1 / 10 ^ 9
       \<and> xToLng b w (lngToX b w lng) = lng \<and> yToLat b h (latToY b h lat) = lat"
proof -
  have x: "\<bar>f64_xToLng b w (f64_lngToX b w lng) - lng\<bar> \<le> 22683 * f64_eps"
    using assms(1,3,4,7,11,12) by (rule f64_round_trip_lng)
  have y: "\<bar>f64_yToLat b h (f64_latToY b h lat) - lat\<bar> \<le> 22683 * f64_eps"
    using assms(2,5,6,9,13,14) by (rule f64_round_trip_lat)
  have we: "west b < east b" using assms(1) f64_minNormal_pos by linarith
  have sn: "south b < north b" using assms(2) f64_minNormal_pos by linarith
  note e = projection_exact_round_trip [OF we sn assms(7) assms(9), of lng lat]
  have x': "\<bar>f64_xToLng b w (f64_lngToX b w lng) - lng\<bar> \<le> 1 / 10 ^ 9"
    using x f64_tolerance by (rule order_trans)
  have y': "\<bar>f64_yToLat b h (f64_latToY b h lat) - lat\<bar> \<le> 1 / 10 ^ 9"
    using y f64_tolerance by (rule order_trans)
  show ?thesis using x' y' e by (simp only: simp_thms)
qed

theorem projection_round_trip_witness:
  "f64_minNormal \<le> east degreeBounds - west degreeBounds
   \<and> f64_minNormal \<le> north degreeBounds - south degreeBounds
   \<and> \<bar>west degreeBounds\<bar> \<le> 360 \<and> \<bar>east degreeBounds\<bar> \<le> 360
   \<and> \<bar>south degreeBounds\<bar> \<le> 360 \<and> \<bar>north degreeBounds\<bar> \<le> 360
   \<and> (0 :: int) < 1799 \<and> (1799 :: int) \<le> 2 ^ 53 \<and> (0 :: int) < 1059 \<and> (1059 :: int) \<le> 2 ^ 53
   \<and> west degreeBounds \<le> - 100 \<and> - 100 \<le> east degreeBounds
   \<and> south degreeBounds \<le> 40 \<and> 40 \<le> north degreeBounds
   \<and> \<bar>f64_xToLng degreeBounds 1799 (f64_lngToX degreeBounds 1799 (- 100)) - (- 100)\<bar> \<le> 1 / 10 ^ 9
   \<and> \<bar>f64_yToLat degreeBounds 1059 (f64_latToY degreeBounds 1059 40) - 40\<bar> \<le> 1 / 10 ^ 9
   \<and> xToLng degreeBounds 1799 (lngToX degreeBounds 1799 (- 100)) = - 100
   \<and> yToLat degreeBounds 1059 (latToY degreeBounds 1059 40) = 40"
proof -
  have f: "west degreeBounds = - 134" "east degreeBounds = - 61"
    "south degreeBounds = 21" "north degreeBounds = 53"
    by (simp_all add: degreeBounds_def)
  have h1: "f64_minNormal \<le> east degreeBounds - west degreeBounds"
    using f64_minNormal_le_1 by (simp add: f)
  have h2: "f64_minNormal \<le> north degreeBounds - south degreeBounds"
    using f64_minNormal_le_1 by (simp add: f)
  have h3: "\<bar>west degreeBounds\<bar> \<le> 360" and h4: "\<bar>east degreeBounds\<bar> \<le> 360"
    and h5: "\<bar>south degreeBounds\<bar> \<le> 360" and h6: "\<bar>north degreeBounds\<bar> \<le> 360"
    by (simp_all add: f)
  have h7: "(0 :: int) < 1799" and h8: "(1799 :: int) \<le> 2 ^ 53"
    and h9: "(0 :: int) < 1059" and h10: "(1059 :: int) \<le> 2 ^ 53" by simp_all
  have h11: "west degreeBounds \<le> - 100" and h12: "- 100 \<le> east degreeBounds"
    and h13: "south degreeBounds \<le> 40" and h14: "40 \<le> north degreeBounds"
    by (simp_all add: f)
  note T = projection_round_trip [OF h1 h2 h3 h4 h5 h6 h7 h8 h9 h10 h11 h12 h13 h14]
  show ?thesis using h1 h2 h3 h4 h5 h6 h7 h8 h9 h10 h11 h12 h13 h14 T
    by (simp only: simp_thms)
qed

end
